theory Spec2Isabelle
  imports Complex_Main "HOL-Library.Sublist"
begin

section \<open>The AI Browser tool handlers (sdk-mcp-server)\<close>

text \<open>
  The handlers of the in-process tool server are embedded as functions over an explicit
  world. Each handler is an \<^verbatim>\<open>async\<close> function: its value is a promise, which resolves,
  rejects or never settles. The browser context and the view manager the handlers call
  are not part of the file: what they answer is a parameter (\<open>env\<close>), what they keep
  (open views, active view, trace session, pending dialog) is a field of \<open>world\<close>, and
  every call that acts on them is appended to a log.

  Embedded are \<^verbatim>\<open>withTimeout\<close>, \<^verbatim>\<open>textResult\<close>, \<^verbatim>\<open>imageResult\<close>, \<^verbatim>\<open>fillFormElement\<close> and
  the handlers of list_pages, select_page, close_page, resize, handle_dialog, click,
  hover, fill, fill_form, screenshot, network_requests, console, emulate, perf_start and
  perf_stop.
\<close>

subsection \<open>Strings and numbers\<close>

text \<open>
  A JavaScript string is a list of characters. A \<^verbatim>\<open>number\<close> argument is a \<open>real\<close>
  (zod's \<^verbatim>\<open>z.number()\<close> admits fractions); a number that the schema or the code makes an
  integer (\<^verbatim>\<open>z.number().int()\<close>, a length, a product of integers) is an \<open>int\<close> or \<open>nat\<close>
  and is rendered in decimal, as a template literal does.
\<close>

definition digit :: "nat \<Rightarrow> char" where
  "digit n = ''0123456789'' ! n"

function show_nat :: "nat \<Rightarrow> string" where
  "show_nat n = (if n < 10 then [digit n] else show_nat (n div 10) @ [digit (n mod 10)])"
  by pat_completeness auto
termination
  by (relation "measure id") auto

declare show_nat.simps [simp del]

definition show_int :: "int \<Rightarrow> string" where
  "show_int i = (if i < 0 then CHR ''-'' # show_nat (nat (- i)) else show_nat (nat i))"

text \<open>\<^verbatim>\<open>s.includes(p)\<close>: \<open>p\<close> occurs in \<open>s\<close> as a contiguous run.\<close>

fun str_includes :: "string \<Rightarrow> string \<Rightarrow> bool" where
  "str_includes [] p = (p = [])"
| "str_includes (c # cs) p = (prefix p (c # cs) \<or> str_includes cs p)"

text \<open>\<^verbatim>\<open>lines.join('\n')\<close>\<close>

fun join :: "string list \<Rightarrow> string \<Rightarrow> string" where
  "join [] sep = []"
| "join [l] sep = l"
| "join (l # m # ls) sep = l @ sep @ join (m # ls) sep"

text \<open>Truthiness of an optional string: \<^verbatim>\<open>undefined\<close>, \<^verbatim>\<open>null\<close> and \<^verbatim>\<open>''\<close> are falsy.\<close>

fun truthy :: "string option \<Rightarrow> bool" where
  "truthy None = False"
| "truthy (Some s) = (s \<noteq> [])"

text \<open>\<^verbatim>\<open>a || b\<close> on strings.\<close>

definition orElse :: "string \<Rightarrow> string \<Rightarrow> string" where
  "orElse a b = (if a \<noteq> [] then a else b)"

text \<open>The line feed and the double quote of the message texts.\<close>

definition nl :: string where
  "nl = [CHR 0x0A]"

definition dquote :: string where
  "dquote = [CHR 0x22]"

text \<open>
  \<^verbatim>\<open>toLowerCase\<close> and \<^verbatim>\<open>toUpperCase\<close> on the letters A-Z and a-z, which is what the
  resource types and console message types are written in.
\<close>

definition lower_char :: "char \<Rightarrow> char" where
  "lower_char c = (let n = of_char c :: nat in if 65 \<le> n \<and> n \<le> 90 then char_of (n + 32) else c)"

definition upper_char :: "char \<Rightarrow> char" where
  "upper_char c = (let n = of_char c :: nat in if 97 \<le> n \<and> n \<le> 122 then char_of (n - 32) else c)"

definition toLowerCase :: "string \<Rightarrow> string" where
  "toLowerCase s = map lower_char s"

definition toUpperCase :: "string \<Rightarrow> string" where
  "toUpperCase s = map upper_char s"

text \<open>
  \<^verbatim>\<open>xs.slice(start, fin)\<close>: a negative bound counts from the end, both bounds are
  clamped to the list, and an empty or reversed range gives the empty list.
\<close>

definition slice :: "'a list \<Rightarrow> int \<Rightarrow> int \<Rightarrow> 'a list" where
  "slice xs start fin =
     (let len = int (length xs);
          k = (if start < 0 then max (len + start) 0 else min start len);
          final = (if fin < 0 then max (len + fin) 0 else min fin len)
      in take (nat (final - k)) (drop (nat k) xs))"

text \<open>
  \<^verbatim>\<open>xs[i]\<close> for a number \<open>i\<close>: the element when \<open>i\<close> is an integer index of the list,
  \<^verbatim>\<open>undefined\<close> otherwise (also for a fraction such as 0.5).
\<close>

definition at_index :: "'a list \<Rightarrow> real \<Rightarrow> 'a option" where
  "at_index xs i =
     (if of_int \<lfloor>i\<rfloor> = i \<and> 0 \<le> i \<and> i < real (length xs) then Some (xs ! nat \<lfloor>i\<rfloor>)
      else None)"

subsection \<open>Exceptions and promises\<close>

text \<open>
  A thrown value is an \<^verbatim>\<open>Error\<close> (of any subclass) with its message, \<^verbatim>\<open>null\<close>,
  \<^verbatim>\<open>undefined\<close>, or some other value. For the last the string is what a template literal
  shows for its \<^verbatim>\<open>message\<close> property: "undefined" when it has none.
\<close>

datatype exn = Error string | Thrown string | Null | Undefined

fun instanceofError :: "exn \<Rightarrow> bool" where
  "instanceofError (Error m) = True"
| "instanceofError (Thrown s) = False"
| "instanceofError Null = False"
| "instanceofError Undefined = False"

text \<open>
  \<^verbatim>\<open>(error as Error).message\<close>, as every catch block reads it: the cast checks nothing,
  and reading a property of \<^verbatim>\<open>null\<close> or \<^verbatim>\<open>undefined\<close> throws a TypeError.
\<close>

definition unreadable :: "string \<Rightarrow> exn" where
  "unreadable v = Error (''Cannot read properties of '' @ v @ '' (reading 'message')'')"

fun message :: "exn \<Rightarrow> exn + string" where
  "message (Error m) = Inr m"
| "message (Thrown s) = Inr s"
| "message Null = Inl (unreadable ''null'')"
| "message Undefined = Inl (unreadable ''undefined'')"

text \<open>
  The fate of a promise: it resolves or rejects some milliseconds after it was created,
  or it stays pending for ever.
\<close>

datatype 'a promise = Resolved nat 'a | Rejected nat exn | Pending

fun delay :: "nat \<Rightarrow> 'a promise \<Rightarrow> 'a promise" where
  "delay d (Resolved t v) = Resolved (d + t) v"
| "delay d (Rejected t e) = Rejected (d + t) e"
| "delay d Pending = Pending"

fun settled :: "'a promise \<Rightarrow> bool" where
  "settled Pending = False"
| "settled _ = True"

subsection \<open>Tool results\<close>

datatype content_block = TextContent string | ImageContent string string

record tool_result =
  content :: "content_block list"
  isError :: bool

text \<open>\<open>isError\<close> is \<open>True\<close> when the key is present; the code only ever sets it to \<^verbatim>\<open>true\<close>.\<close>

definition textResult :: "string \<Rightarrow> bool \<Rightarrow> tool_result" where
  "textResult text err = \<lparr>content = [TextContent text], isError = err\<rparr>"

definition imageResult :: "string \<Rightarrow> string \<Rightarrow> string \<Rightarrow> tool_result" where
  "imageResult text dat mimeType =
     \<lparr>content = [TextContent text, ImageContent dat mimeType], isError = False\<rparr>"

subsection \<open>The world: views, context state and the log of calls\<close>

record view_state =
  view_id :: string
  view_title :: string
  view_url :: string

datatype json = JBool bool | JNum real | JStr string | JArr "json list"

datatype call =
    SetActiveViewId string
  | Destroy string
  | SelectOption string string
  | FillElement string string
  | ClickElement string bool
  | HoverElement string
  | SetViewportSize real real
  | HandleDialog bool "string option"
  | CaptureScreenshot string "real option" "string option" bool
  | SendCDPCommand string "(string \<times> json) list option"
  | WriteFileSync string string
  | Navigate string string
  | WaitForNavigation nat
  | StartPerformanceTrace
  | StopPerformanceTrace

record dialog =
  dialog_type :: string
  dialog_message :: string
  dialog_defaultValue :: string

record world =
  views :: "view_state list"
  activeViewId :: "string option"
  tracing :: bool
  pendingDialog :: "dialog option"
  calls :: "call list"

subsection \<open>Tasks: asynchronous code over the world\<close>

type_synonym 'a task = "world \<Rightarrow> 'a promise \<times> world"

definition ret :: "'a \<Rightarrow> 'a task" where
  "ret v w = (Resolved 0 v, w)"

definition throw :: "exn \<Rightarrow> 'a task" where
  "throw e w = (Rejected 0 e, w)"

text \<open>A synchronous call that returns or throws.\<close>

definition sync :: "exn + 'a \<Rightarrow> 'a task" where
  "sync r w = (case r of Inl e \<Rightarrow> (Rejected 0 e, w) | Inr v \<Rightarrow> (Resolved 0 v, w))"

text \<open>\<^verbatim>\<open>await m; f\<close>: the rest runs once \<open>m\<close> has resolved.\<close>

definition andThen :: "'a task \<Rightarrow> ('a \<Rightarrow> 'b task) \<Rightarrow> 'b task" where
  "andThen m f w =
     (case m w of
        (Resolved t v, w') \<Rightarrow> (case f v w' of (p, w'') \<Rightarrow> (delay t p, w''))
      | (Rejected t e, w') \<Rightarrow> (Rejected t e, w')
      | (Pending, w') \<Rightarrow> (Pending, w'))"

text \<open>\<^verbatim>\<open>try { m } catch (e) { h }\<close>\<close>

definition tryCatch :: "'a task \<Rightarrow> (exn \<Rightarrow> 'a task) \<Rightarrow> 'a task" where
  "tryCatch m h w =
     (case m w of
        (Rejected t e, w') \<Rightarrow> (case h e w' of (p, w'') \<Rightarrow> (delay t p, w''))
      | (Resolved t v, w') \<Rightarrow> (Resolved t v, w')
      | (Pending, w') \<Rightarrow> (Pending, w'))"

text \<open>A call on the browser: it is logged, and its promise is the one the browser gives.\<close>

definition invoke :: "call \<Rightarrow> 'a promise \<Rightarrow> 'a task" where
  "invoke c p w = (p, w\<lparr>calls := calls w @ [c]\<rparr>)"

text \<open>\<^verbatim>\<open>await new Promise(resolve => setTimeout(resolve, ms))\<close>\<close>

definition sleep :: "nat \<Rightarrow> unit task" where
  "sleep ms w = (Resolved ms (), w)"

definition TOOL_TIMEOUT :: nat where
  "TOOL_TIMEOUT = 60000"

definition NAV_TIMEOUT :: nat where
  "NAV_TIMEOUT = 30000"

text \<open>
  \<^verbatim>\<open>withTimeout(promise, ms, label)\<close>: a timer of \<open>ms\<close> milliseconds is raced against the
  promise. The promise wins when it has settled by the time the timer fires, the very
  millisecond of the timer included. The operation behind the promise is not cancelled:
  what it does to the world stays.

  The log lists the calls in the order in which the handler starts the operations that
  make them. For an operation that is still running when its timer fires, a call it makes
  later is listed with that operation, ahead of the calls the handler goes on to make;
  the log gives the order in time only for operations that are over by their timer.
\<close>

definition race :: "'a promise \<Rightarrow> nat \<Rightarrow> string \<Rightarrow> 'a promise" where
  "race p ms label =
     (let timed_out = Rejected ms (Error (label @ '' timed out after '' @ show_nat ms @ ''ms''))
      in case p of
           Resolved t v \<Rightarrow> if t \<le> ms then Resolved t v else timed_out
         | Rejected t e \<Rightarrow> if t \<le> ms then Rejected t e else timed_out
         | Pending \<Rightarrow> timed_out)"

definition withTimeout :: "'a task \<Rightarrow> nat \<Rightarrow> string \<Rightarrow> 'a task" where
  "withTimeout m ms label w = (case m w of (p, w') \<Rightarrow> (race p ms label, w'))"

subsection \<open>The browser context and the view manager\<close>

datatype element =
  Element (el_uid: string) (role: string) (el_name: string) (backendNodeId: int)
          (children: "element list option")

record screenshot =
  shot_data :: string
  shot_mimeType :: string

text \<open>
  What the collaborators answer. A synchronous method returns a value or throws
  (\<open>exn + 'a\<close>); an asynchronous one gives a promise.
\<close>

record network_request =
  req_id :: string
  req_url :: string
  req_method :: string
  req_resourceType :: string
  req_status :: "int option"
  req_duration :: "real option"
  req_error :: "string option"

text \<open>\<open>req_duration\<close> is \<^verbatim>\<open>req.timing?.duration\<close>: absent when there is no timing.\<close>

record console_message =
  msg_id :: string
  msg_type :: string
  msg_text :: string
  msg_timestamp :: real
  msg_url :: "string option"
  msg_lineNumber :: "int option"

record env =
  getElementByUid :: "string \<Rightarrow> exn + element option"
  selectOption :: "string \<Rightarrow> string \<Rightarrow> unit promise"
  fillElement :: "string \<Rightarrow> string \<Rightarrow> unit promise"
  clickElement :: "string \<Rightarrow> bool \<Rightarrow> unit promise"
  hoverElement :: "string \<Rightarrow> unit promise"
  setViewportSize :: "real \<Rightarrow> real \<Rightarrow> unit promise"
  handleDialog :: "bool \<Rightarrow> string option \<Rightarrow> unit promise"
  captureScreenshot ::
    "string \<Rightarrow> real option \<Rightarrow> string option \<Rightarrow> bool \<Rightarrow> screenshot promise"
  sendCDPCommand :: "string \<Rightarrow> (string \<times> json) list option \<Rightarrow> unit promise"
  getNetworkRequests :: "bool \<Rightarrow> exn + network_request list"
  getConsoleMessages :: "bool \<Rightarrow> exn + console_message list"
  startTrace :: "unit promise"
  stopTrace :: "(real \<times> (string \<times> real) list) promise"
  getPageUrl :: "exn + string"
  navigate :: "string \<Rightarrow> string \<Rightarrow> unit promise"
  waitForNavigation :: "nat \<Rightarrow> unit promise"
  writeFileSync :: "string \<Rightarrow> string \<Rightarrow> exn + unit"
  numberToString :: "real \<Rightarrow> string"
  toFixed :: "real \<Rightarrow> nat \<Rightarrow> string"
  toLocaleTimeString :: "real \<Rightarrow> string"

text \<open>
  The last three fields are the runtime's renderings of a number
  (\<^verbatim>\<open>`${x}`\<close>, \<^verbatim>\<open>x.toFixed(d)\<close>) and of a timestamp
  (\<^verbatim>\<open>new Date(t).toLocaleTimeString()\<close>).
\<close>

subsection \<open>fillFormElement\<close>

text \<open>\<^verbatim>\<open>element.children?.some(child => child.role === 'option')\<close>\<close>

definition hasOptions :: "element \<Rightarrow> bool" where
  "hasOptions el =
     (case children el of None \<Rightarrow> False
      | Some cs \<Rightarrow> list_ex (\<lambda>child. role child = ''option'') cs)"

text \<open>
  The test of the catch block,
  \<^verbatim>\<open>!(e instanceof Error) || !e.message.includes('Could not find option')\<close>: everything
  but an Error saying so is thrown again. The message is read of an Error only.
\<close>

definition rethrown :: "exn \<Rightarrow> bool" where
  "rethrown e =
     (\<not> instanceofError e
      \<or> (case message e of Inr m \<Rightarrow> \<not> str_includes m ''Could not find option''
          | Inl x \<Rightarrow> True))"

text \<open>
  The \<^verbatim>\<open>return\<close> inside the try block is the flag \<open>True\<close>: the code after the block runs
  only when the catch block fell through.
\<close>

definition fillFormElement :: "env \<Rightarrow> string \<Rightarrow> string \<Rightarrow> unit task" where
  "fillFormElement env uid val =
     andThen (sync (getElementByUid env uid)) (\<lambda>element.
       case element of
         Some el \<Rightarrow>
           if role el = ''combobox'' then
             andThen
               (if hasOptions el then
                  tryCatch
                    (andThen (invoke (SelectOption uid val) (selectOption env uid val))
                             (\<lambda>_. ret True))
                    (\<lambda>e. if rethrown e then throw e else ret False)
                else ret False)
               (\<lambda>returned. if returned then ret ()
                           else invoke (FillElement uid val) (fillElement env uid val))
           else invoke (FillElement uid val) (fillElement env uid val)
       | None \<Rightarrow> invoke (FillElement uid val) (fillElement env uid val))"

subsection \<open>State of the view manager and the browser context\<close>

text \<open>
  Modelled from the spec: \<^verbatim>\<open>BrowserContext.setActiveViewId\<close> (context.ts is not among the
  sources). "Setting an id that does not correspond to a live view fails NotFound";
  otherwise the pointer is set.
\<close>

definition setActiveViewId :: "string \<Rightarrow> unit task" where
  "setActiveViewId i w =
     (if i \<in> set (map view_id (views w))
      then (Resolved 0 (), w\<lparr>activeViewId := Some i, calls := calls w @ [SetActiveViewId i]\<rparr>)
      else (Rejected 0 (Error ''NotFound''), w\<lparr>calls := calls w @ [SetActiveViewId i]\<rparr>))"

text \<open>
  Modelled from the spec: \<^verbatim>\<open>ViewManager.destroy\<close> (browser-view.service.ts is not among
  the sources). It "fails with InvalidOperation if id is the only remaining view;
  otherwise tears down the target and removes it".
\<close>

definition destroy :: "string \<Rightarrow> unit task" where
  "destroy i w =
     (if map view_id (views w) = [i]
      then (Rejected 0 (Error ''InvalidOperation''), w\<lparr>calls := calls w @ [Destroy i]\<rparr>)
      else (Resolved 0 (),
            w\<lparr>views := filter (\<lambda>v. view_id v \<noteq> i) (views w), calls := calls w @ [Destroy i]\<rparr>))"

text \<open>
  Modelled from the spec: the trace session of the context, "state in {Idle, Recording}".
  "Starting while Recording fails AlreadyTracing; stopping while Idle is a benign no-op
  result, not an error". What the protocol answers to a start or a stop that is
  carried out is \<open>startTrace\<close> and \<open>stopTrace\<close> of the environment; the session changes
  state when that resolves.
\<close>

definition startPerformanceTrace :: "env \<Rightarrow> unit task" where
  "startPerformanceTrace env w =
     (if tracing w
      then (Rejected 0 (Error ''AlreadyTracing''), w\<lparr>calls := calls w @ [StartPerformanceTrace]\<rparr>)
      else (case startTrace env of
              Resolved t u \<Rightarrow>
                (Resolved t u, w\<lparr>tracing := True, calls := calls w @ [StartPerformanceTrace]\<rparr>)
            | Rejected t e \<Rightarrow> (Rejected t e, w\<lparr>calls := calls w @ [StartPerformanceTrace]\<rparr>)
            | Pending \<Rightarrow> (Pending, w\<lparr>calls := calls w @ [StartPerformanceTrace]\<rparr>)))"

text \<open>
  Modelled from the spec: stopping the trace. While idle it is the "benign no-op result"
  (no duration, no metrics); while recording the protocol's answer decides.
\<close>

definition stopPerformanceTrace :: "env \<Rightarrow> (real \<times> (string \<times> real) list) task" where
  "stopPerformanceTrace env w =
     (if \<not> tracing w
      then (Resolved 0 (0, []), w\<lparr>calls := calls w @ [StopPerformanceTrace]\<rparr>)
      else (case stopTrace env of
              Resolved t r \<Rightarrow>
                (Resolved t r, w\<lparr>tracing := False, calls := calls w @ [StopPerformanceTrace]\<rparr>)
            | Rejected t e \<Rightarrow> (Rejected t e, w\<lparr>calls := calls w @ [StopPerformanceTrace]\<rparr>)
            | Pending \<Rightarrow> (Pending, w\<lparr>calls := calls w @ [StopPerformanceTrace]\<rparr>)))"

subsection \<open>Navigation tools\<close>

definition page_line :: "nat \<times> view_state \<Rightarrow> string" where
  "page_line p =
     (case p of (index, state) \<Rightarrow>
        ''['' @ show_nat index @ ''] '' @ orElse (view_title state) ''Untitled'' @ '' - ''
        @ orElse (view_url state) ''about:blank'')"

definition browser_list_pages :: "tool_result task" where
  "browser_list_pages w =
     (let states = views w in
      if length states = 0 then ret (textResult ''No browser pages are currently open.'' False) w
      else ret (textResult
                  (join (''Open browser pages:'' # map page_line (enumerate 0 states)) nl)
                  False) w)"

text \<open>
  \<^verbatim>\<open>state.id\<close> on \<^verbatim>\<open>undefined\<close> throws a TypeError; in both handlers below the read
  stands outside any try block.
\<close>

definition undefined_id :: exn where
  "undefined_id = Error ''Cannot read properties of undefined (reading 'id')''"

definition browser_select_page :: "env \<Rightarrow> real \<Rightarrow> tool_result task" where
  "browser_select_page env pageIdx w =
     (let states = views w in
      if pageIdx < 0 \<or> pageIdx \<ge> real (length states) then
        ret (textResult
               (''Invalid page index: '' @ numberToString env pageIdx @ ''. Valid range: 0-''
                @ show_int (int (length states) - 1))
               True) w
      else
        (case at_index states pageIdx of
           None \<Rightarrow> throw undefined_id w
         | Some state \<Rightarrow>
             andThen (setActiveViewId (view_id state))
               (\<lambda>_. ret (textResult
                           (''Selected page ['' @ numberToString env pageIdx @ '']: ''
                            @ orElse (view_title state) ''Untitled'' @ '' - '' @ view_url state)
                           False)) w))"

definition browser_close_page :: "env \<Rightarrow> real \<Rightarrow> tool_result task" where
  "browser_close_page env pageIdx w =
     (let states = views w in
      if pageIdx < 0 \<or> pageIdx \<ge> real (length states) then
        ret (textResult (''Invalid page index: '' @ numberToString env pageIdx) True) w
      else if length states = 1 then
        ret (textResult ''The last open page cannot be closed.'' True) w
      else
        (case at_index states pageIdx of
           None \<Rightarrow> throw undefined_id w
         | Some state \<Rightarrow>
             andThen (destroy (view_id state))
               (\<lambda>_. ret (textResult
                           (''Closed page ['' @ numberToString env pageIdx @ '']: ''
                            @ orElse (view_title state) ''Untitled'')
                           False)) w))"

definition browser_resize :: "env \<Rightarrow> real \<Rightarrow> real \<Rightarrow> tool_result task" where
  "browser_resize env width height w =
     (if \<not> truthy (activeViewId w) then ret (textResult ''No active browser page.'' True) w
      else
        tryCatch
          (andThen (invoke (SetViewportSize width height) (setViewportSize env width height))
             (\<lambda>_. ret (textResult
                         (''Viewport resized to: '' @ numberToString env width @ ''x''
                          @ numberToString env height)
                         False)))
          (\<lambda>error. andThen (sync (message error))
             (\<lambda>msg. ret (textResult (''Resize failed: '' @ msg) True))) w)"

text \<open>
  Modelled from the spec: a pending dialog is "cleared by explicit accept/dismiss", so
  the dialog is gone once \<^verbatim>\<open>handleDialog\<close> has resolved.
\<close>

definition handleDialog_call :: "env \<Rightarrow> bool \<Rightarrow> string option \<Rightarrow> unit task" where
  "handleDialog_call env accept promptText w =
     (case handleDialog env accept promptText of
        Resolved t u \<Rightarrow>
          (Resolved t u,
           w\<lparr>pendingDialog := None, calls := calls w @ [HandleDialog accept promptText]\<rparr>)
      | Rejected t e \<Rightarrow> (Rejected t e, w\<lparr>calls := calls w @ [HandleDialog accept promptText]\<rparr>)
      | Pending \<Rightarrow> (Pending, w\<lparr>calls := calls w @ [HandleDialog accept promptText]\<rparr>))"

definition browser_handle_dialog :: "env \<Rightarrow> string \<Rightarrow> string option \<Rightarrow> tool_result task" where
  "browser_handle_dialog env action promptText w =
     (if pendingDialog w = None then ret (textResult ''No open dialog found'' True) w
      else
        tryCatch
          (andThen (handleDialog_call env (action = ''accept'') promptText)
             (\<lambda>_. ret (textResult
                         (''Successfully ''
                          @ (if action = ''accept'' then ''accepted'' else ''dismissed'')
                          @ '' the dialog'')
                         False)))
          (\<lambda>error. andThen (sync (message error))
             (\<lambda>msg. ret (textResult (''Failed to handle dialog: '' @ msg) True))) w)"

subsection \<open>Input tools\<close>

definition browser_click :: "env \<Rightarrow> string \<Rightarrow> bool option \<Rightarrow> tool_result task" where
  "browser_click env uid dblClick w =
     (if \<not> truthy (activeViewId w) then
        ret (textResult ''No active browser page. Use browser_new_page first.'' True) w
      else
        tryCatch
          (andThen
             (withTimeout
                (invoke (ClickElement uid (dblClick = Some True))
                        (clickElement env uid (dblClick = Some True)))
                TOOL_TIMEOUT ''browser_click'')
             (\<lambda>_. ret (textResult
                         (if dblClick = Some True then ''Successfully double clicked on the element''
                          else ''Successfully clicked on the element'')
                         False)))
          (\<lambda>error. andThen (sync (message error))
             (\<lambda>msg. ret (textResult (''Failed to click element '' @ uid @ '': '' @ msg) True))) w)"

definition browser_hover :: "env \<Rightarrow> string \<Rightarrow> tool_result task" where
  "browser_hover env uid w =
     (if \<not> truthy (activeViewId w) then ret (textResult ''No active browser page.'' True) w
      else
        tryCatch
          (andThen
             (withTimeout (invoke (HoverElement uid) (hoverElement env uid))
                TOOL_TIMEOUT ''browser_hover'')
             (\<lambda>_. ret (textResult ''Successfully hovered over the element'' False)))
          (\<lambda>error. andThen (sync (message error))
             (\<lambda>msg. ret (textResult (''Failed to hover element '' @ uid @ '': '' @ msg) True))) w)"

definition browser_fill :: "env \<Rightarrow> string \<Rightarrow> string \<Rightarrow> tool_result task" where
  "browser_fill env uid val w =
     (if \<not> truthy (activeViewId w) then ret (textResult ''No active browser page.'' True) w
      else
        tryCatch
          (andThen (withTimeout (fillFormElement env uid val) TOOL_TIMEOUT ''browser_fill'')
             (\<lambda>_. ret (textResult ''Successfully filled out the element'' False)))
          (\<lambda>error. andThen (sync (message error))
             (\<lambda>msg. ret (textResult (''Failed to fill element '' @ uid @ '': '' @ msg) True))) w)"








subsection \<open>Screenshot\<close>

definition screenshot_message :: "string option \<Rightarrow> bool option \<Rightarrow> string" where
  "screenshot_message uid fullPage =
     (if truthy uid then
        ''Took a screenshot of node with uid '' @ dquote @ (case uid of Some u \<Rightarrow> u | None \<Rightarrow> [])
        @ dquote @ ''.''
      else if fullPage = Some True then ''Took a screenshot of the full current page.''
      else ''Took a screenshot of the current page's viewport.'')"

definition browser_screenshot ::
  "env \<Rightarrow> string option \<Rightarrow> real option \<Rightarrow> string option \<Rightarrow> bool option \<Rightarrow> string option
   \<Rightarrow> tool_result task" where
  "browser_screenshot env format quality uid fullPage filePath w =
     (if \<not> truthy (activeViewId w) then ret (textResult ''No active browser page.'' True) w
      else if truthy uid \<and> fullPage = Some True then
        ret (textResult
               (''Providing both '' @ dquote @ ''uid'' @ dquote @ '' and '' @ dquote @ ''fullPage''
                @ dquote @ '' is not allowed.'')
               True) w
      else
        tryCatch
          (let fmt = (if truthy format then (case format of Some f \<Rightarrow> f | None \<Rightarrow> ''png'')
                      else ''png'');
               q = (if fmt = ''png'' then None else quality);
               full = (fullPage = Some True)
           in andThen
                (withTimeout
                   (invoke (CaptureScreenshot fmt q uid full) (captureScreenshot env fmt q uid full))
                   TOOL_TIMEOUT ''browser_screenshot'')
                (\<lambda>result.
                   if truthy filePath then
                     (case filePath of
                        Some path \<Rightarrow>
                          andThen
                            (andThen (invoke (WriteFileSync path (shot_data result)) (Resolved 0 ()))
                               (\<lambda>_. sync (writeFileSync env path (shot_data result))))
                            (\<lambda>_. ret (textResult
                                        (screenshot_message uid fullPage @ nl
                                         @ ''Saved screenshot to '' @ path @ ''.'')
                                        False))
                      | None \<Rightarrow> ret (imageResult (screenshot_message uid fullPage)
                                        (shot_data result) (shot_mimeType result)))
                   else ret (imageResult (screenshot_message uid fullPage)
                               (shot_data result) (shot_mimeType result))))
          (\<lambda>error. andThen (sync (message error))
             (\<lambda>msg. ret (textResult (''Failed to take screenshot: '' @ msg) True))) w)"

subsection \<open>Network and console listings\<close>

definition request_lines :: "env \<Rightarrow> network_request \<Rightarrow> string list" where
  "request_lines env req =
     (let status = (case req_status req of
                      Some st \<Rightarrow> if st \<noteq> 0 then show_int st else ''pending''
                    | None \<Rightarrow> ''pending'');
          duration = (case req_duration req of
                        Some d \<Rightarrow> if d \<noteq> 0 then numberToString env d @ ''ms'' else ''-''
                      | None \<Rightarrow> ''-'')
      in [''[reqid='' @ req_id req @ ''] '' @ req_method req @ '' '' @ status @ '' ''
          @ req_resourceType req,
          ''    URL: '' @ take 100 (req_url req)
          @ (if length (req_url req) > 100 then ''...'' else []),
          ''    Duration: '' @ duration]
         @ (case req_error req of
              Some err \<Rightarrow> if err \<noteq> [] then [''    Error: '' @ err] else []
            | None \<Rightarrow> [])
         @ [[]])"

text \<open>
  The filter by resource type: \<^verbatim>\<open>types.has(r.resourceType.toLowerCase())\<close> for the set of
  the lower-cased \<^verbatim>\<open>args.resourceTypes\<close>, applied when the list is given and not empty.
\<close>

definition filter_resource_types ::
  "string list option \<Rightarrow> network_request list \<Rightarrow> network_request list" where
  "filter_resource_types resourceTypes requests =
     (case resourceTypes of
        Some ts \<Rightarrow>
          if length ts > 0 then
            filter (\<lambda>r. toLowerCase (req_resourceType r) \<in> set (map toLowerCase ts)) requests
          else requests
      | None \<Rightarrow> requests)"

definition browser_network_requests ::
  "env \<Rightarrow> int option \<Rightarrow> int option \<Rightarrow> string list option \<Rightarrow> bool option \<Rightarrow> tool_result task" where
  "browser_network_requests env pageSize pageIdx resourceTypes includePreservedRequests =
     tryCatch
       (andThen (sync (getNetworkRequests env (includePreservedRequests = Some True)))
          (\<lambda>all_requests.
             let requests = filter_resource_types resourceTypes all_requests;
                 total = int (length requests);
                 pageIdx' = (case pageIdx of Some i \<Rightarrow> i | None \<Rightarrow> 0);
                 pageRequests =
                   (case pageSize of
                      Some ps \<Rightarrow> slice requests (pageIdx' * ps) (min (pageIdx' * ps + ps) total)
                    | None \<Rightarrow> requests)
             in if length pageRequests = 0 then
                  ret (textResult ''No network requests captured.'' False)
                else
                  ret (textResult
                         (join
                            ([case pageSize of
                                Some ps \<Rightarrow>
                                  ''Network Requests ('' @ show_int (pageIdx' * ps + 1) @ ''-''
                                  @ show_int (min (pageIdx' * ps + ps) total) @ '' of ''
                                  @ show_int total @ ''):''
                              | None \<Rightarrow> ''Network Requests ('' @ show_int total @ '' total):'',
                              []]
                             @ concat (map (request_lines env) pageRequests)
                             @ (case pageSize of
                                  Some ps \<Rightarrow>
                                    if pageIdx' * ps + int (length pageRequests) < total then
                                      [''Use pageIdx='' @ show_int (pageIdx' + 1)
                                       @ '' to see more requests.'']
                                    else []
                                | None \<Rightarrow> []))
                            nl)
                         False)))
       (\<lambda>error. andThen (sync (message error))
             (\<lambda>msg. ret (textResult (''Failed to get network requests: '' @ msg) True)))"

definition message_lines :: "env \<Rightarrow> console_message \<Rightarrow> string list" where
  "message_lines env msg =
     [''[msgid='' @ msg_id msg @ ''] '' @ toUpperCase (msg_type msg) @ '' (''
      @ toLocaleTimeString env (msg_timestamp msg) @ '')'',
      ''    '' @ take 200 (msg_text msg) @ (if length (msg_text msg) > 200 then ''...'' else [])]
     @ (case msg_url msg of
          Some u \<Rightarrow>
            if u \<noteq> [] then
              [''    at '' @ u
               @ (case msg_lineNumber msg of Some l \<Rightarrow> '':'' @ show_int l | None \<Rightarrow> [])]
            else []
        | None \<Rightarrow> [])
     @ [[]]"

text \<open>The filter by message type, applied when \<^verbatim>\<open>args.types\<close> is given and not empty.\<close>

definition filter_message_types ::
  "string list option \<Rightarrow> console_message list \<Rightarrow> console_message list" where
  "filter_message_types types messages =
     (case types of
        Some ts \<Rightarrow> if length ts > 0 then filter (\<lambda>m. msg_type m \<in> set ts) messages else messages
      | None \<Rightarrow> messages)"

text \<open>
  The page as the specification describes it, to compare the handlers with: the records
  at the positions from \<open>pageIdx * pageSize\<close> up to, and without,
  \<open>min (pageIdx * pageSize + pageSize) n\<close>, for the \<open>n\<close> records of the list.
\<close>

definition spec_page :: "'a list \<Rightarrow> int \<Rightarrow> int \<Rightarrow> 'a list" where
  "spec_page xs pageSize pageIdx =
     map (\<lambda>i. xs ! i)
       [nat (pageIdx * pageSize) ..< nat (min (pageIdx * pageSize + pageSize) (int (length xs)))]"

definition browser_console ::
  "env \<Rightarrow> int option \<Rightarrow> int option \<Rightarrow> string list option \<Rightarrow> bool option \<Rightarrow> tool_result task" where
  "browser_console env pageSize pageIdx types includePreservedMessages =
     tryCatch
       (andThen (sync (getConsoleMessages env (includePreservedMessages = Some True)))
          (\<lambda>all_messages.
             let messages = filter_message_types types all_messages;
                 total = int (length messages);
                 pageIdx' = (case pageIdx of Some i \<Rightarrow> i | None \<Rightarrow> 0);
                 pageMessages =
                   (case pageSize of
                      Some ps \<Rightarrow> slice messages (pageIdx' * ps) (min (pageIdx' * ps + ps) total)
                    | None \<Rightarrow> messages)
             in if length pageMessages = 0 then
                  ret (textResult ''No console messages captured.'' False)
                else
                  ret (textResult
                         (join
                            ([case pageSize of
                                Some ps \<Rightarrow>
                                  ''Console Messages ('' @ show_int (pageIdx' * ps + 1) @ ''-''
                                  @ show_int (min (pageIdx' * ps + ps) total) @ '' of ''
                                  @ show_int total @ ''):''
                              | None \<Rightarrow> ''Console Messages ('' @ show_int total @ '' total):'',
                              []]
                             @ concat (map (message_lines env) pageMessages)
                             @ (case pageSize of
                                  Some ps \<Rightarrow>
                                    if pageIdx' * ps + int (length pageMessages) < total then
                                      [''Use pageIdx='' @ show_int (pageIdx' + 1)
                                       @ '' to see more messages.'']
                                    else []
                                | None \<Rightarrow> []))
                            nl)
                         False)))
       (\<lambda>error. andThen (sync (message error))
             (\<lambda>msg. ret (textResult (''Failed to get console messages: '' @ msg) True)))"

subsection \<open>Emulation\<close>

text \<open>
  The table of the throttling tiers: name, then download, upload (bytes per second) and
  latency (ms), with the arithmetic of the source left as written. The numbers are reals;
  all are whole but the download of "Fast 3G", 209715.2, which the runtime holds as the
  nearest double.
\<close>

definition NETWORK_CONDITIONS :: "(string \<times> real \<times> real \<times> real) list" where
  "NETWORK_CONDITIONS =
     [(''Slow 3G'', 500 * 1024 / 8, 500 * 1024 / 8, 400),
      (''Fast 3G'', 1.6 * 1024 * 1024 / 8, 750 * 1024 / 8, 150),
      (''Regular 4G'', 4 * 1024 * 1024 / 8, 3 * 1024 * 1024 / 8, 20),
      (''DSL'', 2 * 1024 * 1024 / 8, 1 * 1024 * 1024 / 8, 5),
      (''WiFi'', 30 * 1024 * 1024 / 8, 15 * 1024 * 1024 / 8, 2)]"

text \<open>tools/emulation.ts declares the table a second time, for handlers that never run.\<close>

definition tools_NETWORK_CONDITIONS :: "(string \<times> real \<times> real \<times> real) list" where
  "tools_NETWORK_CONDITIONS =
     [(''Slow 3G'', 500 * 1024 / 8, 500 * 1024 / 8, 400),
      (''Fast 3G'', 1.6 * 1024 * 1024 / 8, 750 * 1024 / 8, 150),
      (''Regular 4G'', 4 * 1024 * 1024 / 8, 3 * 1024 * 1024 / 8, 20),
      (''DSL'', 2 * 1024 * 1024 / 8, 1 * 1024 * 1024 / 8, 5),
      (''WiFi'', 30 * 1024 * 1024 / 8, 15 * 1024 * 1024 / 8, 2)]"

text \<open>The parameter object of \<^verbatim>\<open>Network.emulateNetworkConditions\<close>.\<close>

definition network_params :: "bool \<Rightarrow> real \<Rightarrow> real \<Rightarrow> real \<Rightarrow> (string \<times> json) list" where
  "network_params offline latency download upload =
     [(''offline'', JBool offline), (''latency'', JNum latency),
      (''downloadThroughput'', JNum download), (''uploadThroughput'', JNum upload)]"

text \<open>
  The three settings of \<^verbatim>\<open>browser_emulate\<close>, each returning the result lines collected
  so far. The schema admits seven names for \<open>networkConditions\<close>; a name that is neither
  a sentinel nor in the table changes nothing.
\<close>

definition emulate_network :: "env \<Rightarrow> string option \<Rightarrow> string list task" where
  "emulate_network env networkConditions =
     (case networkConditions of
        None \<Rightarrow> ret []
      | Some nc \<Rightarrow>
          if nc = ''No emulation'' then
            andThen
              (invoke (SendCDPCommand ''Network.emulateNetworkConditions''
                         (Some (network_params False 0 (- 1) (- 1))))
                 (sendCDPCommand env ''Network.emulateNetworkConditions''
                    (Some (network_params False 0 (- 1) (- 1)))))
              (\<lambda>_. ret [''Network: No emulation''])
          else if nc = ''Offline'' then
            andThen
              (invoke (SendCDPCommand ''Network.emulateNetworkConditions''
                         (Some (network_params True 0 0 0)))
                 (sendCDPCommand env ''Network.emulateNetworkConditions''
                    (Some (network_params True 0 0 0))))
              (\<lambda>_. ret [''Network: Offline''])
          else
            (case map_of NETWORK_CONDITIONS nc of
               Some (download, upload, latency) \<Rightarrow>
                 andThen
                   (invoke (SendCDPCommand ''Network.emulateNetworkConditions''
                              (Some (network_params False latency download upload)))
                      (sendCDPCommand env ''Network.emulateNetworkConditions''
                         (Some (network_params False latency download upload))))
                   (\<lambda>_. ret [''Network: '' @ nc])
             | None \<Rightarrow> ret []))"

definition emulate_cpu :: "env \<Rightarrow> real option \<Rightarrow> string list \<Rightarrow> string list task" where
  "emulate_cpu env cpuThrottlingRate results =
     (case cpuThrottlingRate of
        None \<Rightarrow> ret results
      | Some rate \<Rightarrow>
          andThen
            (invoke (SendCDPCommand ''Emulation.setCPUThrottlingRate'' (Some [(''rate'', JNum rate)]))
               (sendCDPCommand env ''Emulation.setCPUThrottlingRate''
                  (Some [(''rate'', JNum rate)])))
            (\<lambda>_. ret (results @ [''CPU throttling: '' @ numberToString env rate @ ''x''])))"

text \<open>\<open>geolocation\<close>: \<open>None\<close> is \<^verbatim>\<open>undefined\<close>, \<open>Some None\<close> is \<^verbatim>\<open>null\<close>.\<close>

definition emulate_geolocation ::
  "env \<Rightarrow> (real \<times> real) option option \<Rightarrow> string list \<Rightarrow> string list task" where
  "emulate_geolocation env geolocation results =
     (case geolocation of
        None \<Rightarrow> ret results
      | Some None \<Rightarrow>
          andThen
            (invoke (SendCDPCommand ''Emulation.clearGeolocationOverride'' None)
               (sendCDPCommand env ''Emulation.clearGeolocationOverride'' None))
            (\<lambda>_. ret (results @ [''Geolocation: cleared'']))
      | Some (Some (latitude, longitude)) \<Rightarrow>
          andThen
            (invoke (SendCDPCommand ''Emulation.setGeolocationOverride''
                       (Some [(''latitude'', JNum latitude), (''longitude'', JNum longitude),
                              (''accuracy'', JNum 100)]))
               (sendCDPCommand env ''Emulation.setGeolocationOverride''
                  (Some [(''latitude'', JNum latitude), (''longitude'', JNum longitude),
                         (''accuracy'', JNum 100)])))
            (\<lambda>_. ret (results @ [''Geolocation: '' @ numberToString env latitude @ '', ''
                                   @ numberToString env longitude])))"

definition browser_emulate ::
  "env \<Rightarrow> string option \<Rightarrow> real option \<Rightarrow> (real \<times> real) option option \<Rightarrow> tool_result task" where
  "browser_emulate env networkConditions cpuThrottlingRate geolocation w =
     (if \<not> truthy (activeViewId w) then ret (textResult ''No active browser page.'' True) w
      else
        tryCatch
          (andThen (emulate_network env networkConditions)
             (\<lambda>r1. andThen (emulate_cpu env cpuThrottlingRate r1)
                (\<lambda>r2. andThen (emulate_geolocation env geolocation r2)
                   (\<lambda>results.
                      if length results = 0 then
                        ret (textResult ''No emulation settings changed.'' False)
                      else ret (textResult (join results nl) False)))))
          (\<lambda>error. andThen (sync (message error))
             (\<lambda>msg. ret (textResult (''Emulation failed: '' @ msg) True))) w)"

subsection \<open>Performance tools\<close>

definition formatBytes :: "env \<Rightarrow> real \<Rightarrow> string" where
  "formatBytes env bytes =
     (if bytes < 1024 then numberToString env bytes @ '' B''
      else if bytes < 1024 * 1024 then toFixed env (bytes / 1024) 1 @ '' KB''
      else if bytes < 1024 * 1024 * 1024 then toFixed env (bytes / (1024 * 1024)) 1 @ '' MB''
      else toFixed env (bytes / (1024 * 1024 * 1024)) 1 @ '' GB'')"

text \<open>\<^verbatim>\<open>if (metrics.K) lines.push(f(metrics.K))\<close>: the line is there for a non-zero metric.\<close>

definition metric_line :: "(string \<times> real) list \<Rightarrow> string \<Rightarrow> (real \<Rightarrow> string) \<Rightarrow> string list" where
  "metric_line metrics k f =
     (case map_of metrics k of Some v \<Rightarrow> if v \<noteq> 0 then [f v] else [] | None \<Rightarrow> [])"

definition formatTraceResults :: "env \<Rightarrow> real \<Rightarrow> (string \<times> real) list \<Rightarrow> string" where
  "formatTraceResults env duration metrics =
     join
       ([''The performance trace has been stopped.'', [], ''## Trace Summary'',
         ''Duration: '' @ numberToString env duration @ ''ms'', [], ''## Core Metrics'']
        @ metric_line metrics ''JSHeapUsedSize'' (\<lambda>v. ''JS Heap Used: '' @ formatBytes env v)
        @ metric_line metrics ''JSHeapTotalSize'' (\<lambda>v. ''JS Heap Total: '' @ formatBytes env v)
        @ metric_line metrics ''Nodes'' (\<lambda>v. ''DOM Nodes: '' @ numberToString env v)
        @ metric_line metrics ''Documents'' (\<lambda>v. ''Documents: '' @ numberToString env v)
        @ metric_line metrics ''LayoutCount'' (\<lambda>v. ''Layout Count: '' @ numberToString env v)
        @ metric_line metrics ''LayoutDuration''
            (\<lambda>v. ''Layout Duration: '' @ toFixed env (v * 1000) 2 @ ''ms'')
        @ metric_line metrics ''RecalcStyleCount''
            (\<lambda>v. ''Recalc Style Count: '' @ numberToString env v)
        @ metric_line metrics ''ScriptDuration''
            (\<lambda>v. ''Script Duration: '' @ toFixed env (v * 1000) 2 @ ''ms'')
        @ metric_line metrics ''TaskDuration''
            (\<lambda>v. ''Task Duration: '' @ toFixed env (v * 1000) 2 @ ''ms'')
        @ [[], ''## Available Insight Sets'',
           ''Use browser_perf_insight with these insight sets:'',
           ''- insightSetId: '' @ dquote @ ''main'' @ dquote
           @ '', available insights: DocumentLatency, LCPBreakdown, RenderBlocking''])
       nl"

definition already_running :: string where
  "already_running =
     ''Error: a performance trace is already running. Use browser_perf_stop to stop it. ''
     @ ''Only one trace can be running at any given time.''"

definition browser_perf_start :: "env \<Rightarrow> bool \<Rightarrow> bool \<Rightarrow> tool_result task" where
  "browser_perf_start env reload autoStop w =
     (case activeViewId w of
        None \<Rightarrow> ret (textResult ''No active browser page.'' True) w
      | Some viewId \<Rightarrow>
          if viewId = [] then ret (textResult ''No active browser page.'' True) w
          else if tracing w then ret (textResult already_running True) w
          else
            tryCatch
              (andThen
                 (if reload then
                    andThen (sync (getPageUrl env))
                      (\<lambda>currentUrl.
                         andThen (invoke (Navigate viewId ''about:blank'')
                                    (navigate env viewId ''about:blank''))
                           (\<lambda>_. andThen (sleep 500)
                              (\<lambda>_. andThen (startPerformanceTrace env)
                                 (\<lambda>_. andThen (invoke (Navigate viewId currentUrl)
                                                 (navigate env viewId currentUrl))
                                    (\<lambda>_. invoke (WaitForNavigation NAV_TIMEOUT)
                                            (waitForNavigation env NAV_TIMEOUT))))))
                  else startPerformanceTrace env)
                 (\<lambda>_. if autoStop then
                         andThen (sleep 5000)
                           (\<lambda>_. andThen (stopPerformanceTrace env)
                              (\<lambda>r. ret (textResult (formatTraceResults env (fst r) (snd r)) False)))
                       else
                         ret (textResult
                                (''The performance trace is being recorded. ''
                                 @ ''Use browser_perf_stop to stop it.'')
                                False)))
              (\<lambda>error. andThen (sync (message error))
             (\<lambda>msg. ret (textResult (''Failed to start trace: '' @ msg) True))) w)"

definition browser_perf_stop :: "env \<Rightarrow> tool_result task" where
  "browser_perf_stop env w =
     (if \<not> truthy (activeViewId w) then ret (textResult ''No active browser page.'' True) w
      else if \<not> tracing w then ret (textResult ''No performance trace is running.'' False) w
      else
        tryCatch
          (andThen (stopPerformanceTrace env)
             (\<lambda>r. ret (textResult (formatTraceResults env (fst r) (snd r)) False)))
          (\<lambda>error. andThen (sync (message error))
             (\<lambda>msg. ret (textResult (''Failed to stop trace: '' @ msg) True))) w)"

subsection \<open>The tool server\<close>

text \<open>
  Modelled from the spec: \<^verbatim>\<open>createSdkMcpServer\<close>, through which alone the handlers are
  called (\<^verbatim>\<open>createAIBrowserMcpServer\<close> registers all of them with it); it belongs to the
  Agent SDK and is not among the sources. The spec has the dispatcher normalize "every
  outcome into {content: [text and/or image blocks], isError?}" and convert "any failure
  ... into a normalized {isError:true, content:text} result", so that "no exception
  crosses into caller-visible state": a handler whose promise rejects is answered with an
  error result. How the server words the failure is the parameter \<open>describe\<close>. A result
  of the handler is passed on as it is, and the server waits as long as the handler does.
\<close>

definition createSdkMcpServer :: "(exn \<Rightarrow> string) \<Rightarrow> tool_result task \<Rightarrow> tool_result task" where
  "createSdkMcpServer describe handler w =
     (case handler w of
        (Rejected t e, w') \<Rightarrow> (Resolved t (textResult (describe e) True), w')
      | (Resolved t r, w') \<Rightarrow> (Resolved t r, w')
      | (Pending, w') \<Rightarrow> (Pending, w'))"

subsection \<open>Example browsers\<close>

text \<open>
  A browser in which every operation succeeds after 5 ms, no uid resolves and nothing is
  buffered. Its renderings of numbers print the integer part, which is the runtime's
  rendering for whole numbers.
\<close>

definition idle_browser :: env where
  "idle_browser =
     \<lparr>getElementByUid = (\<lambda>uid. Inr None),
      selectOption = (\<lambda>uid val. Resolved 5 ()),
      fillElement = (\<lambda>uid val. Resolved 5 ()),
      clickElement = (\<lambda>uid dbl. Resolved 5 ()),
      hoverElement = (\<lambda>uid. Resolved 5 ()),
      setViewportSize = (\<lambda>width height. Resolved 5 ()),
      handleDialog = (\<lambda>accept promptText. Resolved 5 ()),
      captureScreenshot =
        (\<lambda>fmt q uid full. Resolved 5 \<lparr>shot_data = ''iVBORw0KGgo='', shot_mimeType = ''image/png''\<rparr>),
      sendCDPCommand = (\<lambda>method params. Resolved 5 ()),
      getNetworkRequests = (\<lambda>preserved. Inr []),
      getConsoleMessages = (\<lambda>preserved. Inr []),
      startTrace = Resolved 5 (),
      stopTrace = Resolved 5 (1000, []),
      getPageUrl = Inr ''https://example.com/'',
      navigate = (\<lambda>viewId url. Resolved 5 ()),
      waitForNavigation = (\<lambda>timeout. Resolved 5 ()),
      writeFileSync = (\<lambda>path dat. Inr ()),
      numberToString = (\<lambda>x. show_int \<lfloor>x\<rfloor>),
      toFixed = (\<lambda>x d. show_int \<lfloor>x\<rfloor>),
      toLocaleTimeString = (\<lambda>t. ''12:00:00'')\<rparr>"

text \<open>The same browser when it has stopped answering: no operation ever settles.\<close>

definition unresponsive_browser :: env where
  "unresponsive_browser =
     idle_browser
       \<lparr>selectOption := (\<lambda>uid val. Pending),
        fillElement := (\<lambda>uid val. Pending),
        clickElement := (\<lambda>uid dbl. Pending),
        hoverElement := (\<lambda>uid. Pending),
        setViewportSize := (\<lambda>width height. Pending),
        handleDialog := (\<lambda>accept promptText. Pending),
        sendCDPCommand := (\<lambda>method params. Pending)\<rparr>"

definition home_view :: view_state where
  "home_view = \<lparr>view_id = ''view-1'', view_title = ''Home'', view_url = ''https://example.com/''\<rparr>"

definition docs_view :: view_state where
  "docs_view =
     \<lparr>view_id = ''view-2'', view_title = ''Docs'', view_url = ''https://example.com/docs''\<rparr>"

definition one_page :: world where
  "one_page =
     \<lparr>views = [home_view], activeViewId = Some ''view-1'', tracing = False,
      pendingDialog = None, calls = []\<rparr>"

definition two_pages :: world where
  "two_pages =
     \<lparr>views = [home_view, docs_view], activeViewId = Some ''view-1'', tracing = False,
      pendingDialog = None, calls = []\<rparr>"

text \<open>A fresh session: no view is open and none is selected.\<close>

definition no_page :: world where
  "no_page =
     \<lparr>views = [], activeViewId = None, tracing = False, pendingDialog = None, calls = []\<rparr>"

text \<open>A wording of failures: the message, or the value as a string.\<close>

fun plain_text :: "exn \<Rightarrow> string" where
  "plain_text (Error m) = m"
| "plain_text (Thrown s) = s"
| "plain_text Null = ''null''"
| "plain_text Undefined = ''undefined''"

definition alert_open :: world where
  "alert_open =
     one_page\<lparr>pendingDialog :=
                Some \<lparr>dialog_type = ''alert'', dialog_message = ''Saved'', dialog_defaultValue = []\<rparr>\<rparr>"

text \<open>A select-like combobox with one option, and a browser whose snapshot holds it.\<close>

definition country_select :: element where
  "country_select =
     Element ''e7'' ''combobox'' ''Country'' 41 (Some [Element ''e8'' ''option'' ''France'' 42 None])"

definition select_browser :: env where
  "select_browser =
     idle_browser
       \<lparr>getElementByUid := (\<lambda>uid. if uid = ''e7'' then Inr (Some country_select) else Inr None),
        selectOption :=
          (\<lambda>uid val. if val = ''France'' then Resolved 5 ()
                      else Rejected 3 (Error (''Could not find option '' @ val))),
        fillElement :=
          (\<lambda>uid val. if uid = ''gone'' then Rejected 2 (Error ''Element not found: gone'')
                      else Resolved 5 ())\<rparr>"


text \<open>A browser with 25 buffered console messages and 25 buffered requests.\<close>

definition numbered_message :: "nat \<Rightarrow> console_message" where
  "numbered_message i =
     \<lparr>msg_id = show_nat i, msg_type = ''log'', msg_text = ''message '' @ show_nat i,
      msg_timestamp = 0, msg_url = None, msg_lineNumber = None\<rparr>"

definition numbered_request :: "nat \<Rightarrow> network_request" where
  "numbered_request i =
     \<lparr>req_id = show_nat i, req_url = ''https://example.com/'' @ show_nat i, req_method = ''GET'',
      req_resourceType = ''fetch'', req_status = Some 200, req_duration = None,
      req_error = None\<rparr>"

definition busy_browser :: env where
  "busy_browser =
     idle_browser
       \<lparr>getConsoleMessages := (\<lambda>preserved. Inr (map numbered_message [1..<26])),
        getNetworkRequests := (\<lambda>preserved. Inr (map numbered_request [1..<26]))\<rparr>"

section \<open>Properties of the handlers\<close>

subsection \<open>Running tasks\<close>

lemmas task_defs =
  andThen_def tryCatch_def ret_def throw_def invoke_def sync_def withTimeout_def

lemma delay_0 [simp]: "delay 0 p = p"
  by (cases p) simp_all

lemma delay_delay [simp]: "delay a (delay b p) = delay (a + b) p"
  by (cases p) simp_all


lemma race_cases:
  "(\<exists>t v. race p ms label = Resolved t v \<and> p = Resolved t v \<and> t \<le> ms)
   \<or> (\<exists>t e. race p ms label = Rejected t e \<and> t \<le> ms)"
  by (cases p) (auto simp: race_def Let_def)

lemma message_Inl_iff:
  "message e = Inl x
   \<longleftrightarrow> e = Null \<and> x = unreadable ''null'' \<or> e = Undefined \<and> x = unreadable ''undefined''"
  by (cases e) auto

lemma message_Inr_iff: "message e = Inr s \<longleftrightarrow> e = Error s \<or> e = Thrown s"
  by (cases e) auto

lemma show_60000: "show_nat 60000 = ''60000''"
  by (simp add: show_nat.simps digit_def)

subsection \<open>fillFormElement\<close>

lemma hasOptions_iff:
  "hasOptions el \<longleftrightarrow> (\<exists>cs. children el = Some cs \<and> (\<exists>c \<in> set cs. role c = ''option''))"
  by (auto simp: hasOptions_def list_ex_iff split: option.splits)

lemma rethrown_iff:
  "rethrown e \<longleftrightarrow> \<not> (\<exists>m. e = Error m \<and> str_includes m ''Could not find option'')"
  by (cases e) (simp_all add: rethrown_def)

text \<open>
  C3. Let \<open>uid\<close> resolve to an element. If the element is a combobox with a child of
  role option, \<open>selectOption\<close> is called first: when it resolves, nothing else is called;
  when it rejects with an Error whose message contains "Could not find option",
  \<open>fillElement\<close> is called next and decides the outcome; any other rejection is the
  outcome, unchanged, and \<open>fillElement\<close> is not called; when it never settles neither
  does the fill. An element that is not a combobox, or has no option child, is filled by
  \<open>fillElement\<close> alone.
\<close>

theorem fillFormElement_resolved:
  assumes "getElementByUid env uid = Inr (Some el)"
  shows "fillFormElement env uid val w =
     (if role el = ''combobox''
         \<and> (\<exists>cs. children el = Some cs \<and> (\<exists>c \<in> set cs. role c = ''option''))
      then
        (case selectOption env uid val of
           Resolved t u \<Rightarrow> (Resolved t (), w\<lparr>calls := calls w @ [SelectOption uid val]\<rparr>)
         | Rejected t e \<Rightarrow>
             if (\<exists>m. e = Error m \<and> str_includes m ''Could not find option'')
             then (delay t (fillElement env uid val),
                   w\<lparr>calls := calls w @ [SelectOption uid val, FillElement uid val]\<rparr>)
             else (Rejected t e, w\<lparr>calls := calls w @ [SelectOption uid val]\<rparr>)
         | Pending \<Rightarrow> (Pending, w\<lparr>calls := calls w @ [SelectOption uid val]\<rparr>))
      else (fillElement env uid val, w\<lparr>calls := calls w @ [FillElement uid val]\<rparr>))"
proof (cases "role el = ''combobox'' \<and> hasOptions el")
  case True
  then show ?thesis
    using assms
    by (cases "selectOption env uid val")
       (auto simp: fillFormElement_def task_defs rethrown_iff hasOptions_iff)
next
  case False
  then show ?thesis
    using assms
    by (cases "fillElement env uid val")
       (auto simp: fillFormElement_def task_defs hasOptions_iff)
qed

theorem fillFormElement_resolved_witness:
  "getElementByUid select_browser ''e7'' = Inr (Some country_select)
   \<and> fillFormElement select_browser ''e7'' ''France'' one_page
       = (Resolved 5 (), one_page\<lparr>calls := [SelectOption ''e7'' ''France'']\<rparr>)
   \<and> fillFormElement select_browser ''e7'' ''Atlantis'' one_page
       = (Resolved 8 (),
          one_page\<lparr>calls := [SelectOption ''e7'' ''Atlantis'', FillElement ''e7'' ''Atlantis'']\<rparr>)"
  using fillFormElement_resolved [of select_browser "''e7''" country_select "''France''" one_page]
        fillFormElement_resolved [of select_browser "''e7''" country_select "''Atlantis''" one_page]
  by (simp add: select_browser_def idle_browser_def one_page_def country_select_def)

text \<open>
  C10. When \<open>getElementByUid\<close> returns no element for the uid, \<open>fillFormElement\<close> raises
  nothing of its own: it calls \<open>fillElement\<close> with the uid and nothing else, and the
  outcome of the fill is the outcome of that call.
\<close>

theorem fillFormElement_unresolved:
  assumes "getElementByUid env uid = Inr None"
  shows "fillFormElement env uid val w =
           (fillElement env uid val, w\<lparr>calls := calls w @ [FillElement uid val]\<rparr>)"
  using assms by (simp add: fillFormElement_def task_defs)

theorem fillFormElement_unresolved_witness:
  "getElementByUid select_browser ''stale'' = Inr None
   \<and> fillFormElement select_browser ''stale'' ''x'' one_page
       = (Resolved 5 (), one_page\<lparr>calls := [FillElement ''stale'' ''x'']\<rparr>)
   \<and> fillFormElement select_browser ''gone'' ''x'' one_page
       = (Rejected 2 (Error ''Element not found: gone''),
          one_page\<lparr>calls := [FillElement ''gone'' ''x'']\<rparr>)"
  using fillFormElement_unresolved [of select_browser "''stale''" "''x''" one_page]
        fillFormElement_unresolved [of select_browser "''gone''" "''x''" one_page]
  by (simp add: select_browser_def idle_browser_def one_page_def)

subsection \<open>Exceptions that leave a handler\<close>

text \<open>
  A handler whose calls stand inside its try block answers an Error of the browser with
  an error result of its own. Its promise rejects only when the browser rejects with
  \<^verbatim>\<open>null\<close> or \<^verbatim>\<open>undefined\<close>, whose message the catch block cannot read.
\<close>

lemma caught_reject_only_bare:
  "fst (browser_resize env width height w) = Rejected t e
   \<Longrightarrow> setViewportSize env width height \<in> {Rejected t Null, Rejected t Undefined}"
  "fst (browser_handle_dialog env action promptText w) = Rejected t e
   \<Longrightarrow> handleDialog env (action = ''accept'') promptText
       \<in> {Rejected t Null, Rejected t Undefined}"
  "fst (browser_click env uid dblClick w) = Rejected t e
   \<Longrightarrow> clickElement env uid (dblClick = Some True) \<in> {Rejected t Null, Rejected t Undefined}"
  "fst (browser_hover env uid w) = Rejected t e
   \<Longrightarrow> hoverElement env uid \<in> {Rejected t Null, Rejected t Undefined}"
  by (auto simp: browser_resize_def browser_handle_dialog_def handleDialog_call_def
        browser_click_def browser_hover_def race_def Let_def task_defs message_Inl_iff
      split: promise.splits prod.splits if_splits sum.splits)

text \<open>
  The page index of \<^verbatim>\<open>browser_select_page\<close> and \<^verbatim>\<open>browser_close_page\<close> is any number. For a
  fraction inside the range the range check passes, \<^verbatim>\<open>states[pageIdx]\<close> is \<^verbatim>\<open>undefined\<close>,
  and the read of its \<^verbatim>\<open>id\<close> throws outside any try block: the promise of the handler
  rejects.
\<close>

lemma page_index_fraction:
  assumes "0 \<le> pageIdx" "pageIdx < real (length (views w))" "of_int \<lfloor>pageIdx\<rfloor> \<noteq> pageIdx"
  shows "browser_select_page env pageIdx w = (Rejected 0 undefined_id, w)"
    and "length (views w) \<noteq> 1
         \<Longrightarrow> browser_close_page env pageIdx w = (Rejected 0 undefined_id, w)"
  using assms
  by (simp_all add: browser_select_page_def browser_close_page_def at_index_def Let_def throw_def)

lemma browser_select_page_settles:
  "\<exists>t w'. (\<exists>r. browser_select_page env pageIdx w = (Resolved t r, w'))
          \<or> (\<exists>e. browser_select_page env pageIdx w = (Rejected t e, w'))"
  by (auto simp: browser_select_page_def setActiveViewId_def Let_def task_defs
           split: option.splits)

lemma browser_close_page_settles:
  "\<exists>t w'. (\<exists>r. browser_close_page env pageIdx w = (Resolved t r, w'))
          \<or> (\<exists>e. browser_close_page env pageIdx w = (Rejected t e, w'))"
  by (auto simp: browser_close_page_def destroy_def Let_def task_defs
           split: option.splits)

lemma server_settles:
  assumes "\<exists>t w'. (\<exists>r. handler w = (Resolved t r, w')) \<or> (\<exists>e. handler w = (Rejected t e, w'))"
  shows "\<exists>t r w'. createSdkMcpServer describe handler w = (Resolved t r, w')"
  using assms by (auto simp: createSdkMcpServer_def)

text \<open>
  C1. Whatever the handler and the state: when the promise of the handler rejects, the
  call through the tool server resolves to an error result worded from the exception;
  when it resolves, the result is passed on unchanged; and the call through the server
  never rejects. \<^verbatim>\<open>browser_select_page\<close> and \<^verbatim>\<open>browser_close_page\<close> called through the server
  resolve to a result for every page index and every state, although \<^verbatim>\<open>setActiveViewId\<close>
  and \<^verbatim>\<open>destroy\<close> stand outside any try block; for a fraction inside the range, where
  the handler itself rejects, the result is the error result worded from the TypeError.
\<close>

theorem server_normalizes:
  "(\<forall>t e w'. handler w = (Rejected t e, w') \<longrightarrow>
       createSdkMcpServer describe handler w = (Resolved t (textResult (describe e) True), w'))
   \<and> (\<forall>t r w'. handler w = (Resolved t r, w') \<longrightarrow>
       createSdkMcpServer describe handler w = (Resolved t r, w'))
   \<and> (\<forall>t e. fst (createSdkMcpServer describe handler w) \<noteq> Rejected t e)
   \<and> (\<exists>t r w'. createSdkMcpServer describe (browser_select_page env pageIdx) w
                = (Resolved t r, w'))
   \<and> (\<exists>t r w'. createSdkMcpServer describe (browser_close_page env pageIdx) w
                = (Resolved t r, w'))
   \<and> (0 \<le> pageIdx \<and> pageIdx < real (length (views w)) \<and> of_int \<lfloor>pageIdx\<rfloor> \<noteq> pageIdx \<longrightarrow>
        createSdkMcpServer describe (browser_select_page env pageIdx) w
        = (Resolved 0 (textResult (describe undefined_id) True), w)
        \<and> (length (views w) \<noteq> 1 \<longrightarrow>
             createSdkMcpServer describe (browser_close_page env pageIdx) w
             = (Resolved 0 (textResult (describe undefined_id) True), w)))"
proof (intro conjI allI impI)
  show "createSdkMcpServer describe handler w = (Resolved t (textResult (describe e) True), w')"
    if "handler w = (Rejected t e, w')" for t e w'
    using that by (simp add: createSdkMcpServer_def)
  show "createSdkMcpServer describe handler w = (Resolved t r, w')"
    if "handler w = (Resolved t r, w')" for t r w'
    using that by (simp add: createSdkMcpServer_def)
  show "fst (createSdkMcpServer describe handler w) \<noteq> Rejected t e" for t e
    by (auto simp: createSdkMcpServer_def split: prod.splits promise.splits)
  show "\<exists>t r w'. createSdkMcpServer describe (browser_select_page env pageIdx) w
                = (Resolved t r, w')"
    by (rule server_settles [OF browser_select_page_settles])
  show "\<exists>t r w'. createSdkMcpServer describe (browser_close_page env pageIdx) w
                = (Resolved t r, w')"
    by (rule server_settles [OF browser_close_page_settles])
  show "createSdkMcpServer describe (browser_select_page env pageIdx) w
        = (Resolved 0 (textResult (describe undefined_id) True), w)"
    if "0 \<le> pageIdx \<and> pageIdx < real (length (views w)) \<and> of_int \<lfloor>pageIdx\<rfloor> \<noteq> pageIdx"
    using that page_index_fraction(1) [of pageIdx w env] by (simp add: createSdkMcpServer_def)
  show "createSdkMcpServer describe (browser_close_page env pageIdx) w
        = (Resolved 0 (textResult (describe undefined_id) True), w)"
    if "0 \<le> pageIdx \<and> pageIdx < real (length (views w)) \<and> of_int \<lfloor>pageIdx\<rfloor> \<noteq> pageIdx"
      "length (views w) \<noteq> 1"
    using that page_index_fraction(2) [of pageIdx w env] by (simp add: createSdkMcpServer_def)
qed

theorem server_normalizes_witness:
  "browser_select_page idle_browser (1 / 2) one_page = (Rejected 0 undefined_id, one_page)
   \<and> createSdkMcpServer plain_text (browser_select_page idle_browser (1 / 2)) one_page
     = (Resolved 0 (textResult ''Cannot read properties of undefined (reading 'id')'' True),
        one_page)
   \<and> browser_close_page idle_browser (1 / 2) two_pages = (Rejected 0 undefined_id, two_pages)
   \<and> createSdkMcpServer plain_text (browser_close_page idle_browser (1 / 2)) two_pages
     = (Resolved 0 (textResult ''Cannot read properties of undefined (reading 'id')'' True),
        two_pages)
   \<and> createSdkMcpServer plain_text (browser_close_page idle_browser 0) one_page
     = (Resolved 0 (textResult ''The last open page cannot be closed.'' True), one_page)"
proof -
  have sel: "browser_select_page idle_browser (1 / 2) one_page = (Rejected 0 undefined_id, one_page)"
    by (simp add: browser_select_page_def one_page_def at_index_def task_defs)
  have clo: "browser_close_page idle_browser (1 / 2) two_pages = (Rejected 0 undefined_id, two_pages)"
    by (simp add: browser_close_page_def two_pages_def at_index_def task_defs)
  have last: "browser_close_page idle_browser 0 one_page
     = (Resolved 0 (textResult ''The last open page cannot be closed.'' True), one_page)"
    by (simp add: browser_close_page_def one_page_def task_defs)
  from server_normalizes [of "browser_select_page idle_browser (1 / 2)" one_page plain_text
         idle_browser 0]
       server_normalizes [of "browser_close_page idle_browser (1 / 2)" two_pages plain_text
         idle_browser 0]
       server_normalizes [of "browser_close_page idle_browser 0" one_page plain_text
         idle_browser 0]
       sel clo last
  show ?thesis
    by (simp add: undefined_id_def)
qed

subsection \<open>Timeouts\<close>

text \<open>
  Where the operation is passed through \<open>withTimeout\<close> the promise of the handler
  settles within the timeout whatever the browser does.
\<close>

lemma browser_click_settles:
  "\<exists>t w'. t \<le> TOOL_TIMEOUT
          \<and> ((\<exists>r. browser_click env uid dblClick w = (Resolved t r, w'))
             \<or> (\<exists>e. browser_click env uid dblClick w = (Rejected t e, w')))"
proof (cases "truthy (activeViewId w)")
  case False
  then show ?thesis by (simp add: browser_click_def ret_def)
next
  case True
  then show ?thesis
    using race_cases [of "clickElement env uid (dblClick = Some True)" TOOL_TIMEOUT
            "''browser_click''"]
    by (auto simp: browser_click_def task_defs split: sum.splits)
qed

lemma browser_hover_settles:
  "\<exists>t w'. t \<le> TOOL_TIMEOUT
          \<and> ((\<exists>r. browser_hover env uid w = (Resolved t r, w'))
             \<or> (\<exists>e. browser_hover env uid w = (Rejected t e, w')))"
proof (cases "truthy (activeViewId w)")
  case False
  then show ?thesis by (simp add: browser_hover_def ret_def)
next
  case True
  then show ?thesis
    using race_cases [of "hoverElement env uid" TOOL_TIMEOUT "''browser_hover''"]
    by (auto simp: browser_hover_def task_defs split: sum.splits)
qed

lemma browser_fill_settles:
  "\<exists>t w'. t \<le> TOOL_TIMEOUT
          \<and> ((\<exists>r. browser_fill env uid val w = (Resolved t r, w'))
             \<or> (\<exists>e. browser_fill env uid val w = (Rejected t e, w')))"
proof (cases "truthy (activeViewId w)")
  case False
  then show ?thesis by (simp add: browser_fill_def ret_def)
next
  case True
  obtain p w1 where run: "fillFormElement env uid val w = (p, w1)"
    by (cases "fillFormElement env uid val w")
  with True show ?thesis
    using race_cases [of p TOOL_TIMEOUT "''browser_fill''"]
    by (auto simp: browser_fill_def task_defs split: sum.splits)
qed

text \<open>
  Where the operation is awaited directly, the handler waits as long as the browser does.
\<close>

lemma unwrapped_hang:
  "truthy (activeViewId w) \<Longrightarrow> setViewportSize env width height = Pending
   \<Longrightarrow> fst (browser_resize env width height w) = Pending"
  "pendingDialog w \<noteq> None \<Longrightarrow> handleDialog env (action = ''accept'') promptText = Pending
   \<Longrightarrow> fst (browser_handle_dialog env action promptText w) = Pending"
  by (simp_all add: browser_resize_def browser_handle_dialog_def handleDialog_call_def task_defs)

text \<open>
  C4. \<^verbatim>\<open>browser_resize\<close>, \<^verbatim>\<open>browser_emulate\<close> and \<^verbatim>\<open>browser_handle_dialog\<close> await the
  browser directly. When the browser never answers, their promises never settle: no
  Timeout result is produced, while \<^verbatim>\<open>browser_click\<close> on the same browser gives one
  after 60000 ms.
\<close>

theorem unwrapped_tools_hang:
  "browser_resize unresponsive_browser 800 600 one_page
     = (Pending, one_page\<lparr>calls := [SetViewportSize 800 600]\<rparr>)
   \<and> browser_emulate unresponsive_browser (Some ''Slow 3G'') None None one_page
     = (Pending,
        one_page\<lparr>calls := [SendCDPCommand ''Network.emulateNetworkConditions''
                               (Some (network_params False 400 64000 64000))]\<rparr>)
   \<and> browser_handle_dialog unresponsive_browser ''accept'' None alert_open
     = (Pending, alert_open\<lparr>calls := [HandleDialog True None]\<rparr>)
   \<and> browser_click unresponsive_browser ''e7'' None one_page
     = (Resolved 60000
          (textResult ''Failed to click element e7: browser_click timed out after 60000ms'' True),
        one_page\<lparr>calls := [ClickElement ''e7'' False]\<rparr>)"
  by (simp add: browser_resize_def browser_emulate_def emulate_network_def
        NETWORK_CONDITIONS_def browser_handle_dialog_def handleDialog_call_def
        browser_click_def race_def TOOL_TIMEOUT_def show_60000
        unresponsive_browser_def idle_browser_def one_page_def alert_open_def task_defs)

theorem unwrapped_tools_hang_witness:
  "\<not> settled (fst (browser_resize unresponsive_browser 800 600 one_page))
   \<and> settled (fst (browser_click unresponsive_browser ''e7'' None one_page))"
  using unwrapped_tools_hang by simp

subsection \<open>Screenshots\<close>

text \<open>
  C5, as the claim states it, fails when no page is selected: a call that sets only
  \<open>fullPage\<close> is then answered with the error "No active browser page." and nothing is
  captured.
\<close>

theorem screenshot_without_page:
  "browser_screenshot idle_browser None None None (Some True) None no_page
   = (Resolved 0 (textResult ''No active browser page.'' True), no_page)"
  by (simp add: browser_screenshot_def no_page_def ret_def)

lemma screenshot_capture_first:
  assumes "truthy (activeViewId w)" "\<not> (truthy uid \<and> fullPage = Some True)"
  shows "\<exists>fmt q rest.
           calls (snd (browser_screenshot env format quality uid fullPage filePath w))
           = calls w @ CaptureScreenshot fmt q uid (fullPage = Some True) # rest"
proof -
  define fmt where
    "fmt = (if truthy format then (case format of Some f \<Rightarrow> f | None \<Rightarrow> ''png'') else ''png'')"
  define q where "q = (if fmt = ''png'' then None else quality)"
  define p where "p = captureScreenshot env fmt q uid (fullPage = Some True)"
  show ?thesis
    using race_cases [of p TOOL_TIMEOUT "''browser_screenshot''"] assms
    apply (simp only: browser_screenshot_def Let_def fmt_def [symmetric] q_def [symmetric])
    apply (auto simp: task_defs p_def split: option.splits sum.splits)
    done
qed

text \<open>
  C5, amended. A uid is set when it is a non-empty string and \<open>fullPage\<close> when it is true,
  which is how the handler tests them. With no page selected every call resolves to the
  error "No active browser page." and the world is unchanged. With a page selected, a
  call in which both are set resolves at once to the error result and the world (the log
  of calls with it) is unchanged, so nothing was asked of the browser; every other call
  asks the browser for the capture before anything else, with the uid and the fullPage
  flag it was given: the viewport, the full page or the element.
\<close>

theorem browser_screenshot_exclusive:
  "(\<not> truthy (activeViewId w) \<longrightarrow>
      browser_screenshot env format quality uid fullPage filePath w
      = (Resolved 0 (textResult ''No active browser page.'' True), w))
   \<and> (truthy (activeViewId w) \<and> truthy uid \<and> fullPage = Some True \<longrightarrow>
      browser_screenshot env format quality uid fullPage filePath w
      = (Resolved 0
           (textResult (''Providing both '' @ dquote @ ''uid'' @ dquote @ '' and '' @ dquote
                        @ ''fullPage'' @ dquote @ '' is not allowed.'') True),
         w))
   \<and> (truthy (activeViewId w) \<and> \<not> (truthy uid \<and> fullPage = Some True) \<longrightarrow>
      (\<exists>fmt q rest.
         calls (snd (browser_screenshot env format quality uid fullPage filePath w))
         = calls w @ CaptureScreenshot fmt q uid (fullPage = Some True) # rest))"
  using screenshot_capture_first [of w uid fullPage env format quality filePath]
  by (auto simp: browser_screenshot_def ret_def)

theorem browser_screenshot_exclusive_witness:
  "truthy (activeViewId one_page) \<and> \<not> truthy (activeViewId no_page)
   \<and> browser_screenshot idle_browser None None (Some ''e7'') (Some True) None no_page
       = (Resolved 0 (textResult ''No active browser page.'' True), no_page)
   \<and> isError (case fst (browser_screenshot idle_browser None None (Some ''e7'') (Some True) None
                             one_page) of Resolved t r \<Rightarrow> r)
   \<and> snd (browser_screenshot idle_browser None None (Some ''e7'') (Some True) None one_page)
       = one_page
   \<and> (\<exists>fmt q rest.
         calls (snd (browser_screenshot idle_browser None None (Some ''e7'') None None one_page))
         = calls one_page @ CaptureScreenshot fmt q (Some ''e7'') False # rest)"
  using browser_screenshot_exclusive [of no_page idle_browser None None "Some ''e7''" "Some True" None]
        browser_screenshot_exclusive [of one_page idle_browser None None "Some ''e7''" "Some True" None]
        browser_screenshot_exclusive [of one_page idle_browser None None "Some ''e7''" None None]
  by (simp add: one_page_def no_page_def textResult_def)

subsection \<open>Closing pages\<close>

lemma filter_other_ids:
  "distinct (map f xs) \<Longrightarrow> i < length xs
   \<Longrightarrow> filter (\<lambda>v. f v \<noteq> f (xs ! i)) xs = take i xs @ drop (Suc i) xs"
proof (induction xs arbitrary: i)
  case Nil
  then show ?case by simp
next
  case (Cons x xs)
  show ?case
  proof (cases i)
    case 0
    from Cons.prems have "f x \<notin> f ` set xs"
      by simp
    then have "\<forall>v \<in> set xs. f v \<noteq> f x"
      by (metis imageI)
    then have "filter (\<lambda>v. f v \<noteq> f x) xs = xs"
      by (simp add: filter_id_conv)
    with 0 show ?thesis by simp
  next
    case (Suc j)
    with Cons.prems have "f x \<noteq> f (xs ! j)" by auto
    with Suc Cons show ?thesis by simp
  qed
qed

lemma at_index_nat: "i < length xs \<Longrightarrow> at_index xs (real i) = Some (xs ! i)"
  by (simp add: at_index_def)

text \<open>
  C6. With exactly one view open, \<^verbatim>\<open>browser_close_page\<close> resolves to an error result
  for every index ("The last open page cannot be closed." for an index from 0 up to 1,
  "Invalid page index" for any other) and leaves the world as it was (no \<open>destroy\<close> is
  logged), and
  \<^verbatim>\<open>browser_list_pages\<close> run after it lists that one view. With more than one view and
  an index \<open>i\<close> of the list, the view at \<open>i\<close> is destroyed: the result is "Closed page",
  no remaining view has its id, and when ids are distinct the other views remain in
  order.
\<close>

theorem browser_close_page_last:
  "(length (views w) = 1 \<longrightarrow>
      browser_close_page env pageIdx w
      = (Resolved 0
           (if pageIdx < 0 \<or> 1 \<le> pageIdx
            then textResult (''Invalid page index: '' @ numberToString env pageIdx) True
            else textResult ''The last open page cannot be closed.'' True),
         w)
      \<and> browser_list_pages (snd (browser_close_page env pageIdx w))
          = (Resolved 0
               (textResult (''Open browser pages:'' @ nl @ page_line (0, hd (views w))) False),
             w))
   \<and> (1 < length (views w) \<and> i < length (views w) \<longrightarrow>
      browser_close_page env (real i) w
      = (Resolved 0
           (textResult (''Closed page ['' @ numberToString env (real i) @ '']: ''
                        @ orElse (view_title (views w ! i)) ''Untitled'') False),
         w\<lparr>views := filter (\<lambda>v. view_id v \<noteq> view_id (views w ! i)) (views w),
           calls := calls w @ [Destroy (view_id (views w ! i))]\<rparr>)
      \<and> view_id (views w ! i)
          \<notin> view_id ` set (views (snd (browser_close_page env (real i) w)))
      \<and> (distinct (map view_id (views w)) \<longrightarrow>
           views (snd (browser_close_page env (real i) w))
           = take i (views w) @ drop (Suc i) (views w)))"
proof (intro conjI impI)
  assume one: "length (views w) = 1"
  then obtain v where v: "views w = [v]"
    by (cases "views w") auto
  show refused: "browser_close_page env pageIdx w
      = (Resolved 0
           (if pageIdx < 0 \<or> 1 \<le> pageIdx
            then textResult (''Invalid page index: '' @ numberToString env pageIdx) True
            else textResult ''The last open page cannot be closed.'' True),
         w)"
    using one by (auto simp: browser_close_page_def Let_def ret_def)
  show "browser_list_pages (snd (browser_close_page env pageIdx w))
          = (Resolved 0
               (textResult (''Open browser pages:'' @ nl @ page_line (0, hd (views w))) False),
             w)"
    unfolding refused using v by (simp add: browser_list_pages_def Let_def ret_def)
next
  assume many: "1 < length (views w) \<and> i < length (views w)"
  then have multi: "map view_id (views w) \<noteq> [view_id (views w ! i)]"
    by (cases "views w") auto
  show closed: "browser_close_page env (real i) w
      = (Resolved 0
           (textResult (''Closed page ['' @ numberToString env (real i) @ '']: ''
                        @ orElse (view_title (views w ! i)) ''Untitled'') False),
         w\<lparr>views := filter (\<lambda>v. view_id v \<noteq> view_id (views w ! i)) (views w),
           calls := calls w @ [Destroy (view_id (views w ! i))]\<rparr>)"
    using many multi
    by (simp add: browser_close_page_def Let_def at_index_nat destroy_def task_defs)
  show "view_id (views w ! i) \<notin> view_id ` set (views (snd (browser_close_page env (real i) w)))"
    by (auto simp: closed)
  show "views (snd (browser_close_page env (real i) w)) = take i (views w) @ drop (Suc i) (views w)"
    if "distinct (map view_id (views w))"
    using that many by (simp add: closed filter_other_ids)
qed

theorem browser_close_page_last_witness:
  "length (views one_page) = 1
   \<and> browser_close_page idle_browser 0 one_page
       = (Resolved 0 (textResult ''The last open page cannot be closed.'' True), one_page)
   \<and> browser_list_pages one_page
       = (Resolved 0 (textResult (''Open browser pages:'' @ nl @ ''[0] Home - https://example.com/'') False),
          one_page)
   \<and> 1 < length (views two_pages) \<and> (0::nat) < length (views two_pages)
   \<and> distinct (map view_id (views two_pages))
   \<and> browser_close_page idle_browser 0 two_pages
       = (Resolved 0 (textResult ''Closed page [0]: Home'' False),
          two_pages\<lparr>views := [docs_view], calls := [Destroy ''view-1'']\<rparr>)"
  using browser_close_page_last [of one_page idle_browser 0 0]
        browser_close_page_last [of two_pages idle_browser 0 0]
  by (simp add: one_page_def two_pages_def home_view_def docs_view_def idle_browser_def
        browser_close_page_def Let_def ret_def page_line_def orElse_def show_nat.simps
        show_int_def digit_def nl_def)

subsection \<open>The performance trace\<close>

lemma perf_start_recording:
  assumes "truthy (activeViewId w)"
    and "browser_perf_start env reload False w = (Resolved t r, w')"
    and "\<not> isError r"
  shows "tracing w' \<and> activeViewId w' = activeViewId w"
proof (cases "tracing w")
  case True
  with assms show ?thesis
    by (auto simp: browser_perf_start_def ret_def textResult_def split: option.splits if_splits)
next
  case False
  obtain viewId where v: "activeViewId w = Some viewId" "viewId \<noteq> []"
    using assms(1) by (cases "activeViewId w") auto
  from False v assms(2,3) show ?thesis
    by (auto simp: browser_perf_start_def startPerformanceTrace_def sleep_def task_defs
                   textResult_def
             split: if_splits sum.splits promise.splits prod.splits)
qed

text \<open>
  C7, as the claim states it, fails when no page is selected: the session is idle, and
  \<^verbatim>\<open>browser_perf_stop\<close> resolves to the error "No active browser page.", not to a
  result that is no error.
\<close>

theorem perf_stop_without_page:
  "\<not> tracing no_page
   \<and> browser_perf_stop idle_browser no_page
     = (Resolved 0 (textResult ''No active browser page.'' True), no_page)"
  by (simp add: browser_perf_stop_def no_page_def ret_def)

text \<open>
  C7, amended. With no page selected, \<^verbatim>\<open>browser_perf_start\<close> and
  \<^verbatim>\<open>browser_perf_stop\<close> both resolve to the error "No active browser page.", whatever the
  state of the session, and ask nothing of the browser. With a page selected:
  \<^verbatim>\<open>browser_perf_start\<close> while the session is recording resolves to the "already
  running" error result and asks nothing of the browser; \<^verbatim>\<open>browser_perf_stop\<close> while it
  is idle resolves to a result that is not an error and asks nothing either; and after a
  start that returned without error and without stopping the trace itself (\<open>autoStop\<close>
  false), the next start gets the "already running" error, whatever its arguments.
\<close>

theorem perf_trace_single:
  "(\<not> truthy (activeViewId w) \<longrightarrow>
      browser_perf_start env reload autoStop w
      = (Resolved 0 (textResult ''No active browser page.'' True), w)
      \<and> browser_perf_stop env w
        = (Resolved 0 (textResult ''No active browser page.'' True), w))
   \<and> (truthy (activeViewId w) \<longrightarrow>
        (tracing w \<longrightarrow>
            browser_perf_start env reload autoStop w
            = (Resolved 0 (textResult already_running True), w))
       \<and> (\<not> tracing w \<longrightarrow>
            browser_perf_stop env w
            = (Resolved 0 (textResult ''No performance trace is running.'' False), w))
       \<and> (\<forall>t r w'. browser_perf_start env reload False w = (Resolved t r, w') \<and> \<not> isError r \<longrightarrow>
            browser_perf_start env reload' autoStop' w'
            = (Resolved 0 (textResult already_running True), w')))"
proof (intro conjI impI allI)
  show "browser_perf_start env reload autoStop w
        = (Resolved 0 (textResult ''No active browser page.'' True), w)"
    if "\<not> truthy (activeViewId w)"
    using that by (auto simp: browser_perf_start_def ret_def split: option.splits)
  show "browser_perf_stop env w
        = (Resolved 0 (textResult ''No active browser page.'' True), w)"
    if "\<not> truthy (activeViewId w)"
    using that by (simp add: browser_perf_stop_def ret_def)
  show "browser_perf_start env reload autoStop w
            = (Resolved 0 (textResult already_running True), w)"
    if "truthy (activeViewId w)" "tracing w"
    using that by (auto simp: browser_perf_start_def ret_def split: option.splits)
  show "browser_perf_stop env w
            = (Resolved 0 (textResult ''No performance trace is running.'' False), w)"
    if "truthy (activeViewId w)" "\<not> tracing w"
    using that by (simp add: browser_perf_stop_def ret_def)
  show "browser_perf_start env reload' autoStop' w'
            = (Resolved 0 (textResult already_running True), w')"
    if "truthy (activeViewId w)"
      "browser_perf_start env reload False w = (Resolved t r, w') \<and> \<not> isError r" for t r w'
  proof -
    from that have "tracing w' \<and> activeViewId w' = activeViewId w"
      using perf_start_recording [of w env reload t r w'] by blast
    with that(1) show ?thesis
      by (auto simp: browser_perf_start_def ret_def split: option.splits)
  qed
qed

theorem perf_trace_single_witness:
  "truthy (activeViewId one_page) \<and> \<not> truthy (activeViewId no_page)
   \<and> browser_perf_start idle_browser False False no_page
     = (Resolved 0 (textResult ''No active browser page.'' True), no_page)
   \<and> browser_perf_start idle_browser False False one_page
     = (Resolved 5 (textResult (''The performance trace is being recorded. ''
                                 @ ''Use browser_perf_stop to stop it.'') False),
        one_page\<lparr>tracing := True, calls := [StartPerformanceTrace]\<rparr>)
   \<and> browser_perf_start idle_browser False False
        (one_page\<lparr>tracing := True, calls := [StartPerformanceTrace]\<rparr>)
     = (Resolved 0 (textResult already_running True),
        one_page\<lparr>tracing := True, calls := [StartPerformanceTrace]\<rparr>)
   \<and> browser_perf_stop idle_browser one_page
     = (Resolved 0 (textResult ''No performance trace is running.'' False), one_page)"
proof -
  have first: "browser_perf_start idle_browser False False one_page
     = (Resolved 5 (textResult (''The performance trace is being recorded. ''
                                 @ ''Use browser_perf_stop to stop it.'') False),
        one_page\<lparr>tracing := True, calls := [StartPerformanceTrace]\<rparr>)"
    by (simp add: browser_perf_start_def startPerformanceTrace_def idle_browser_def one_page_def
          task_defs)
  have active: "truthy (activeViewId one_page)" "\<not> truthy (activeViewId no_page)"
    by (simp_all add: one_page_def no_page_def)
  from perf_trace_single [of one_page idle_browser False False False False]
       perf_trace_single [of no_page idle_browser False False False False] first active
  show ?thesis
    by (simp add: textResult_def one_page_def)
qed

subsection \<open>Network throttling presets\<close>

lemma tools_table_same: "tools_NETWORK_CONDITIONS = NETWORK_CONDITIONS"
  by (simp add: tools_NETWORK_CONDITIONS_def NETWORK_CONDITIONS_def)

lemma andThen_extends:
  assumes "\<And>v w'. \<exists>rest. calls (snd (f v w')) = calls w' @ rest"
  shows "\<exists>rest. calls (snd (andThen m f w)) = calls (snd (m w)) @ rest"
proof (cases "m w")
  case (Pair p w1)
  show ?thesis
  proof (cases p)
    case (Resolved t v)
    obtain q w2 where k: "f v w1 = (q, w2)" by (cases "f v w1")
    from assms [of v w1] k Pair Resolved show ?thesis by (simp add: andThen_def)
  qed (simp_all add: andThen_def Pair)
qed

lemma tryCatch_extends:
  assumes "\<And>e w'. \<exists>rest. calls (snd (h e w')) = calls w' @ rest"
  shows "\<exists>rest. calls (snd (tryCatch m h w)) = calls (snd (m w)) @ rest"
proof (cases "m w")
  case (Pair p w1)
  show ?thesis
  proof (cases p)
    case (Rejected t e)
    obtain q w2 where k: "h e w1 = (q, w2)" by (cases "h e w1")
    from assms [of e w1] k Pair Rejected show ?thesis by (simp add: tryCatch_def)
  qed (simp_all add: tryCatch_def Pair)
qed

lemma andThen_grows:
  assumes "\<exists>rest. calls (snd (m w)) = calls w @ rest"
    and "\<And>v w'. \<exists>rest. calls (snd (f v w')) = calls w' @ rest"
  shows "\<exists>rest. calls (snd (andThen m f w)) = calls w @ rest"
  using andThen_extends [of f m w, OF assms(2)] assms(1) by auto

lemma if_grows:
  assumes "\<exists>rest. calls (snd (a w)) = calls w @ rest"
    and "\<exists>rest. calls (snd (b w)) = calls w @ rest"
  shows "\<exists>rest. calls (snd ((if c then a else b) w)) = calls w @ rest"
  using assms by simp

lemma ret_extends: "\<exists>rest. calls (snd (ret v w)) = calls w @ rest"
  by (simp add: ret_def)

lemma invoke_extends: "\<exists>rest. calls (snd (invoke c p w)) = calls w @ rest"
  by (simp add: invoke_def)

lemma caught_message_extends:
  "\<exists>rest. calls (snd (andThen (sync (message e)) (\<lambda>msg. ret (g msg)) w)) = calls w @ rest"
  by (cases "message e") (simp_all add: andThen_def sync_def ret_def)

lemma emulate_cpu_extends: "\<exists>rest. calls (snd (emulate_cpu env cpu r w)) = calls w @ rest"
  by (cases cpu) (simp_all add: emulate_cpu_def task_defs split: promise.splits)

lemma emulate_geolocation_extends:
  "\<exists>rest. calls (snd (emulate_geolocation env geo r w)) = calls w @ rest"
  by (auto simp: emulate_geolocation_def task_defs split: promise.splits option.splits prod.splits)

lemma emulate_first_call:
  assumes "truthy (activeViewId w)"
    and "emulate_network env nc w = (p, w\<lparr>calls := calls w @ [c]\<rparr>)"
  shows "\<exists>rest. calls (snd (browser_emulate env nc cpu geo w)) = calls w @ c # rest"
proof -
  let ?k = "\<lambda>r1. andThen (emulate_cpu env cpu r1)
                (\<lambda>r2. andThen (emulate_geolocation env geo r2)
                   (\<lambda>results.
                      if length results = 0 then
                        ret (textResult ''No emulation settings changed.'' False)
                      else ret (textResult (join results nl) False)))"
  let ?h = "\<lambda>error. andThen (sync (message error))
             (\<lambda>msg. ret (textResult (''Emulation failed: '' @ msg) True))"
  have k: "\<exists>rest. calls (snd (?k r1 w')) = calls w' @ rest" for r1 w'
    by (intro andThen_grows emulate_cpu_extends emulate_geolocation_extends if_grows ret_extends)
  have body: "\<exists>rest. calls (snd (andThen (emulate_network env nc) ?k w))
                = calls w @ c # rest"
    using andThen_extends [of ?k "emulate_network env nc" w, OF k] assms(2) by auto
  have "\<exists>rest. calls (snd (tryCatch (andThen (emulate_network env nc) ?k) ?h w))
                = calls w @ c # rest"
    using tryCatch_extends [of ?h "andThen (emulate_network env nc) ?k" w,
                            OF caught_message_extends]
          body
    by auto
  with assms(1) show ?thesis
    by (simp add: browser_emulate_def)
qed

lemma emulate_sentinel_call:
  "\<exists>p. emulate_network env (Some ''No emulation'') w
        = (p, w\<lparr>calls := calls w @ [SendCDPCommand ''Network.emulateNetworkConditions''
                                         (Some (network_params False 0 (- 1) (- 1)))]\<rparr>)"
  "\<exists>p. emulate_network env (Some ''Offline'') w
        = (p, w\<lparr>calls := calls w @ [SendCDPCommand ''Network.emulateNetworkConditions''
                                         (Some (network_params True 0 0 0))]\<rparr>)"
  by (auto simp: emulate_network_def task_defs split: promise.splits)

lemma emulate_tier_call:
  assumes "map_of NETWORK_CONDITIONS nc = Some (download, upload, latency)"
    and "nc \<noteq> ''No emulation''" "nc \<noteq> ''Offline''"
  shows "\<exists>p. emulate_network env (Some nc) w
             = (p, w\<lparr>calls := calls w @ [SendCDPCommand ''Network.emulateNetworkConditions''
                                    (Some (network_params False latency download upload))]\<rparr>)"
  using assms
  by (auto simp: emulate_network_def task_defs split: promise.splits)

text \<open>
  C8. With a page selected, \<^verbatim>\<open>browser_emulate\<close> with a network preset first sends
  \<^verbatim>\<open>Network.emulateNetworkConditions\<close> with the values of that preset, whatever the other
  settings are: "No emulation" sends offline false, latency 0 and throughput -1,
  "Offline" sends offline true, latency 0 and throughput 0, and each of the five tiers
  sends offline false with its latency, download and upload.
\<close>

theorem emulate_presets:
  assumes "truthy (activeViewId w)"
  shows "\<forall>(name, offline, latency, download, upload) \<in> set
           [(''No emulation'', False, 0, - 1, - 1),
            (''Offline'', True, 0, 0, 0),
            (''Slow 3G'', False, 400, 500 * 1024 / 8, 500 * 1024 / 8),
            (''Fast 3G'', False, 150, 1.6 * 1024 * 1024 / 8, 750 * 1024 / 8),
            (''Regular 4G'', False, 20, 4 * 1024 * 1024 / 8, 3 * 1024 * 1024 / 8),
            (''DSL'', False, 5, 2 * 1024 * 1024 / 8, 1 * 1024 * 1024 / 8),
            (''WiFi'', False, 2, 30 * 1024 * 1024 / 8, 15 * 1024 * 1024 / 8)].
         \<exists>rest. calls (snd (browser_emulate env (Some name) cpu geo w))
                = calls w
                  @ SendCDPCommand ''Network.emulateNetworkConditions''
                      (Some [(''offline'', JBool offline), (''latency'', JNum latency),
                             (''downloadThroughput'', JNum download),
                             (''uploadThroughput'', JNum upload)])
                  # rest"
proof -
  note first = emulate_first_call [OF assms, of env _ _ _ cpu geo]
  have sentinel:
    "\<exists>rest. calls (snd (browser_emulate env (Some ''No emulation'') cpu geo w))
       = calls w @ SendCDPCommand ''Network.emulateNetworkConditions''
                     (Some (network_params False 0 (- 1) (- 1))) # rest"
    "\<exists>rest. calls (snd (browser_emulate env (Some ''Offline'') cpu geo w))
       = calls w @ SendCDPCommand ''Network.emulateNetworkConditions''
                     (Some (network_params True 0 0 0)) # rest"
    using emulate_sentinel_call [of env w] first by blast+
  have tier:
    "\<exists>rest. calls (snd (browser_emulate env (Some nc) cpu geo w))
       = calls w @ SendCDPCommand ''Network.emulateNetworkConditions''
                     (Some (network_params False latency download upload)) # rest"
    if "map_of NETWORK_CONDITIONS nc = Some (download, upload, latency)"
      and "nc \<noteq> ''No emulation''" "nc \<noteq> ''Offline''"
    for nc download upload latency
    using emulate_tier_call [OF that, of env w] first by blast
  have slow: "map_of NETWORK_CONDITIONS ''Slow 3G'' = Some (500 * 1024 / 8, 500 * 1024 / 8, 400)"
    and fast: "map_of NETWORK_CONDITIONS ''Fast 3G''
               = Some (1.6 * 1024 * 1024 / 8, 750 * 1024 / 8, 150)"
    and regular: "map_of NETWORK_CONDITIONS ''Regular 4G''
               = Some (4 * 1024 * 1024 / 8, 3 * 1024 * 1024 / 8, 20)"
    and dsl: "map_of NETWORK_CONDITIONS ''DSL'' = Some (2 * 1024 * 1024 / 8, 1 * 1024 * 1024 / 8, 5)"
    and wifi: "map_of NETWORK_CONDITIONS ''WiFi''
               = Some (30 * 1024 * 1024 / 8, 15 * 1024 * 1024 / 8, 2)"
    by (simp_all add: NETWORK_CONDITIONS_def)
  show ?thesis
    using sentinel tier [OF slow] tier [OF fast] tier [OF regular] tier [OF dsl] tier [OF wifi]
    by (simp add: network_params_def)
qed

theorem emulate_presets_witness:
  "truthy (activeViewId one_page)
   \<and> (\<exists>rest. calls (snd (browser_emulate idle_browser (Some ''Slow 3G'') None None one_page))
         = [] @ SendCDPCommand ''Network.emulateNetworkConditions''
                  (Some [(''offline'', JBool False), (''latency'', JNum 400),
                         (''downloadThroughput'', JNum 64000),
                         (''uploadThroughput'', JNum 64000)]) # rest)
   \<and> (\<exists>rest. calls (snd (browser_emulate idle_browser (Some ''WiFi'') (Some 4) None one_page))
         = [] @ SendCDPCommand ''Network.emulateNetworkConditions''
                  (Some [(''offline'', JBool False), (''latency'', JNum 2),
                         (''downloadThroughput'', JNum 3932160),
                         (''uploadThroughput'', JNum 1966080)]) # rest)"
  using emulate_presets [of one_page idle_browser None None]
        emulate_presets [of one_page idle_browser "Some 4" None]
  by (simp add: one_page_def)

subsection \<open>Filling a form\<close>















subsection \<open>Paginated listings\<close>

lemma nth_range:
  "fin \<le> length xs \<Longrightarrow> map (\<lambda>i. xs ! i) [start..<fin] = take (fin - start) (drop start xs)"
  by (rule nth_equalityI) auto

lemma slice_range:
  assumes "0 \<le> s" "0 < ps"
  shows "slice xs s (min (s + ps) (int (length xs)))
         = map (\<lambda>i. xs ! i) [nat s ..< nat (min (s + ps) (int (length xs)))]"
proof -
  define start where "start = nat s"
  define fin where "fin = nat (min (s + ps) (int (length xs)))"
  have s: "s = int start" and f: "min (s + ps) (int (length xs)) = int fin"
    using assms by (simp_all add: start_def fin_def)
  have le: "fin \<le> length xs"
    by (simp add: fin_def)
  then have "map (\<lambda>i. xs ! i) [start..<fin] = take (fin - start) (drop start xs)"
    by (rule nth_range)
  moreover have "slice xs (int start) (int fin) = take (fin - start) (drop start xs)"
    using le
    by (cases "start \<le> length xs") (simp_all add: slice_def Let_def min_def nat_diff_distrib')
  ultimately show ?thesis
    unfolding f unfolding s by simp
qed

lemma range_empty:
  assumes "0 \<le> s" "0 < ps"
  shows "[nat s ..< nat (min (s + ps) (int n))] = [] \<longleftrightarrow> int n \<le> s"
    and "int n > s
         \<Longrightarrow> s + int (length [nat s ..< nat (min (s + ps) (int n))]) = min (s + ps) (int n)"
  using assms by (auto simp: min_def)

lemma slice_spec_page:
  assumes "0 < ps" "0 \<le> idx"
  shows "slice xs (idx * ps) (min (idx * ps + ps) (int (length xs))) = spec_page xs ps idx"
proof -
  from assms have "0 \<le> idx * ps"
    by simp
  then show ?thesis
    using assms(1) unfolding spec_page_def by (rule slice_range)
qed

lemma spec_page_length:
  assumes "0 < ps" "0 \<le> idx"
  shows "spec_page xs ps idx = [] \<longleftrightarrow> int (length xs) \<le> idx * ps"
    and "spec_page xs ps idx \<noteq> []
         \<Longrightarrow> idx * ps + int (length (spec_page xs ps idx))
             = min (idx * ps + ps) (int (length xs))"
proof -
  from assms have nn: "0 \<le> idx * ps"
    by simp
  show empty: "spec_page xs ps idx = [] \<longleftrightarrow> int (length xs) \<le> idx * ps"
    using range_empty(1) [OF nn assms(1), of "length xs"] by (simp add: spec_page_def)
  show "idx * ps + int (length (spec_page xs ps idx)) = min (idx * ps + ps) (int (length xs))"
    if "spec_page xs ps idx \<noteq> []"
  proof -
    from that empty have "int (length xs) > idx * ps"
      by simp
    then show ?thesis
      unfolding spec_page_def length_map by (rule range_empty(2) [OF nn assms(1)])
  qed
qed

text \<open>The text of a listing, as both handlers build it.\<close>

lemma browser_console_page:
  assumes "0 < ps" "0 \<le> idx" "pageIdx = Some idx \<or> pageIdx = None \<and> idx = 0"
    and "getConsoleMessages env (preserved = Some True) = Inr buffered"
  shows "browser_console env (Some ps) pageIdx types preserved w =
     (let messages = filter_message_types types buffered;
          n = int (length messages);
          page = spec_page messages ps idx
      in (Resolved 0
            (if page = [] then textResult ''No console messages captured.'' False
             else textResult
                    (join ([''Console Messages ('' @ show_int (idx * ps + 1) @ ''-''
                            @ show_int (min (idx * ps + ps) n) @ '' of '' @ show_int n @ ''):'',
                            []]
                           @ concat (map (message_lines env) page)
                           @ (if min (idx * ps + ps) n < n
                              then [''Use pageIdx='' @ show_int (idx + 1)
                                    @ '' to see more messages.'']
                              else []))
                       nl)
                    False),
          w))"
proof -
  have idx: "(case pageIdx of Some i \<Rightarrow> i | None \<Rightarrow> 0) = idx"
    using assms(3) by auto
  show ?thesis
    using spec_page_length [OF assms(1,2), of "filter_message_types types buffered"]
    by (simp add: browser_console_def task_defs assms(4) Let_def idx
          slice_spec_page [OF assms(1,2)])
qed

lemma browser_network_requests_page:
  assumes "0 < ps" "0 \<le> idx" "pageIdx = Some idx \<or> pageIdx = None \<and> idx = 0"
    and "getNetworkRequests env (preserved = Some True) = Inr buffered"
  shows "browser_network_requests env (Some ps) pageIdx resourceTypes preserved w =
     (let requests = filter_resource_types resourceTypes buffered;
          n = int (length requests);
          page = spec_page requests ps idx
      in (Resolved 0
            (if page = [] then textResult ''No network requests captured.'' False
             else textResult
                    (join ([''Network Requests ('' @ show_int (idx * ps + 1) @ ''-''
                            @ show_int (min (idx * ps + ps) n) @ '' of '' @ show_int n @ ''):'',
                            []]
                           @ concat (map (request_lines env) page)
                           @ (if min (idx * ps + ps) n < n
                              then [''Use pageIdx='' @ show_int (idx + 1)
                                    @ '' to see more requests.'']
                              else []))
                       nl)
                    False),
          w))"
proof -
  have idx: "(case pageIdx of Some i \<Rightarrow> i | None \<Rightarrow> 0) = idx"
    using assms(3) by auto
  show ?thesis
    using spec_page_length [OF assms(1,2), of "filter_resource_types resourceTypes buffered"]
    by (simp add: browser_network_requests_def task_defs assms(4) Let_def idx
          slice_spec_page [OF assms(1,2)])
qed

text \<open>
  C2, as the claim states it, fails for a page beyond the last one: with 25 buffered
  records, \<open>pageSize = 10\<close> and \<open>pageIdx = 3\<close> the response is the single line
  "No console messages captured." (or "No network requests captured."), which states
  neither a range nor the total of 25.
\<close>

theorem console_page_beyond_end:
  "browser_console busy_browser (Some 10) (Some 3) None None one_page
   = (Resolved 0 (textResult ''No console messages captured.'' False), one_page)
   \<and> browser_network_requests busy_browser (Some 10) (Some 3) None None one_page
   = (Resolved 0 (textResult ''No network requests captured.'' False), one_page)"
  by (simp add: browser_console_def browser_network_requests_def busy_browser_def
        idle_browser_def filter_message_types_def filter_resource_types_def slice_def task_defs)

text \<open>
  C2, amended. Let \<open>pageSize\<close> be positive and \<open>pageIdx\<close> not negative (an omitted
  \<open>pageIdx\<close> is 0), and let \<open>n\<close> be the number of records after the filter. The page
  both handlers return is \<open>spec_page\<close>: the records at positions
  \<open>pageIdx * pageSize\<close> to \<open>min (pageIdx * pageSize + pageSize) n\<close>. When the page is
  empty the response is the single "No ... captured." line. Otherwise the first line
  states the range (from \<open>pageIdx * pageSize + 1\<close> to the end of the page) and \<open>n\<close>, the
  lines of the records of the page follow, and the hint naming \<open>pageIdx + 1\<close> ends the
  text exactly when the page ends before \<open>n\<close>.
\<close>

theorem paginated_listings:
  assumes "0 < ps" "0 \<le> idx" "pageIdx = Some idx \<or> pageIdx = None \<and> idx = 0"
  shows
    "(getConsoleMessages env (preserved = Some True) = Inr buffered_messages \<longrightarrow>
        browser_console env (Some ps) pageIdx types preserved w =
          (let messages = filter_message_types types buffered_messages;
               n = int (length messages);
               page = spec_page messages ps idx
           in (Resolved 0
                 (if page = [] then textResult ''No console messages captured.'' False
                  else textResult
                         (join ([''Console Messages ('' @ show_int (idx * ps + 1) @ ''-''
                                 @ show_int (min (idx * ps + ps) n) @ '' of '' @ show_int n
                                 @ ''):'',
                                 []]
                                @ concat (map (message_lines env) page)
                                @ (if min (idx * ps + ps) n < n
                                   then [''Use pageIdx='' @ show_int (idx + 1)
                                         @ '' to see more messages.'']
                                   else []))
                            nl)
                         False),
               w)))
     \<and> (getNetworkRequests env (preserved = Some True) = Inr buffered_requests \<longrightarrow>
        browser_network_requests env (Some ps) pageIdx resourceTypes preserved w =
          (let requests = filter_resource_types resourceTypes buffered_requests;
               n = int (length requests);
               page = spec_page requests ps idx
           in (Resolved 0
                 (if page = [] then textResult ''No network requests captured.'' False
                  else textResult
                         (join ([''Network Requests ('' @ show_int (idx * ps + 1) @ ''-''
                                 @ show_int (min (idx * ps + ps) n) @ '' of '' @ show_int n
                                 @ ''):'',
                                 []]
                                @ concat (map (request_lines env) page)
                                @ (if min (idx * ps + ps) n < n
                                   then [''Use pageIdx='' @ show_int (idx + 1)
                                         @ '' to see more requests.'']
                                   else []))
                            nl)
                         False),
               w)))"
  using browser_console_page [OF assms] browser_network_requests_page [OF assms]
  by blast

lemma numbered_page:
  "spec_page (map f [Suc 0..<26]) 10 2 = map f [21..<26]"
  "spec_page (map f [Suc 0..<26]) 10 1 = map f [11..<21]"
  by (rule nth_equalityI; simp add: spec_page_def)+

lemma show_small:
  "show_int 2 = ''2''" "show_int 11 = ''11''" "show_int 20 = ''20''" "show_int 21 = ''21''"
  "show_int 25 = ''25''"
  by (simp_all add: show_int_def show_nat.simps digit_def)

theorem paginated_listings_witness:
  "(0::int) < 10 \<and> (0::int) \<le> 2
   \<and> getConsoleMessages busy_browser (None = Some True) = Inr (map numbered_message [1..<26])
   \<and> browser_console busy_browser (Some 10) (Some 2) None None one_page
       = (Resolved 0
            (textResult
               (join ([''Console Messages (21-25 of 25):'', []]
                      @ concat (map (message_lines busy_browser)
                                  (map numbered_message [21..<26])))
                  nl)
               False),
          one_page)
   \<and> browser_network_requests busy_browser (Some 10) (Some 1) None None one_page
       = (Resolved 0
            (textResult
               (join ([''Network Requests (11-20 of 25):'', []]
                      @ concat (map (request_lines busy_browser)
                                  (map numbered_request [11..<21]))
                      @ [''Use pageIdx=2 to see more requests.''])
                  nl)
               False),
          one_page)"
proof -
  have buffered:
    "getConsoleMessages busy_browser (None = Some True) = Inr (map numbered_message [1..<26])"
    "getNetworkRequests busy_browser (None = Some True) = Inr (map numbered_request [1..<26])"
    by (simp_all add: busy_browser_def)
  have third: "browser_console busy_browser (Some 10) (Some 2) None None one_page
       = (Resolved 0
            (textResult
               (join ([''Console Messages (21-25 of 25):'', []]
                      @ concat (map (message_lines busy_browser)
                                  (map numbered_message [21..<26])))
                  nl)
               False),
          one_page)"
    using paginated_listings
            [where ps = 10 and idx = 2 and pageIdx = "Some 2" and env = busy_browser
               and preserved = None and buffered_messages = "map numbered_message [1..<26]"
               and types = None and w = one_page]
          buffered(1)
    by (simp add: filter_message_types_def numbered_page show_small Let_def)
  have second: "browser_network_requests busy_browser (Some 10) (Some 1) None None one_page
       = (Resolved 0
            (textResult
               (join ([''Network Requests (11-20 of 25):'', []]
                      @ concat (map (request_lines busy_browser)
                                  (map numbered_request [11..<21]))
                      @ [''Use pageIdx=2 to see more requests.''])
                  nl)
               False),
          one_page)"
    using paginated_listings
            [where ps = 10 and idx = 1 and pageIdx = "Some 1" and env = busy_browser
               and preserved = None and buffered_requests = "map numbered_request [1..<26]"
               and resourceTypes = None and w = one_page]
          buffered(2)
    by (simp add: filter_resource_types_def numbered_page show_small Let_def)
  from buffered(1) third second show ?thesis
    by simp
qed

end
